theory Spec2Isabelle
  imports Complex_Main "HOL-Library.Sublist" "HOL-Library.Log_Nat"
begin

section \<open>Build tasks of the RPi Pico SAO Host project (tasks.py)\<close>

text \<open>
  The script removes generated files, runs the KiCad command line tool as a subprocess
  and converts one SVG to PNG. Its effects are modelled by explicit state passing: a
  world holds the file system and a trace of everything the script prints, runs or
  hands to a library. A Python exception is a value: every operation returns the raised
  exception (or \<open>None\<close> for a normal return) together with the state it leaves behind.
\<close>

subsection \<open>Strings\<close>

text \<open>Python's \<open>str(n)\<close> for an integer, as used by the f-strings.\<close>

fun str_nat :: "nat \<Rightarrow> string" where
  "str_nat n = (if n < 10 then [''0123456789'' ! n]
                else str_nat (n div 10) @ [''0123456789'' ! (n mod 10)])"

declare str_nat.simps [simp del]

definition str_int :: "int \<Rightarrow> string" where
  "str_int i = (if i < 0 then CHR ''-'' # str_nat (nat (- i)) else str_nat (nat i))"

text \<open>\<open>sep.join(parts)\<close>.\<close>

fun join :: "string \<Rightarrow> string list \<Rightarrow> string" where
  "join sep [] = []"
| "join sep [x] = x"
| "join sep (x # y # ys) = x @ sep @ join sep (y # ys)"

definition newline :: char where
  "newline = CHR 0x0A"

subsection \<open>Paths\<close>

text \<open>
  A \<open>pathlib.Path\<close> is the list of its parts; an absolute path has the part \<open>/\<close> first,
  or \<open>//\<close> when the string starts with exactly two slashes. \<open>Path\<close> parses a string the
  way pathlib does: empty parts and \<open>.\<close> parts are dropped.
\<close>

type_synonym path = "string list"

fun split_on :: "char \<Rightarrow> string \<Rightarrow> string list" where
  "split_on c [] = [[]]"
| "split_on c (x # xs) =
     (if x = c then [] # split_on c xs
      else (case split_on c xs of
              [] \<Rightarrow> [[x]]
            | y # ys \<Rightarrow> (x # y) # ys))"

definition Path :: "string \<Rightarrow> path" where
  "Path s =
     (let parts = filter (\<lambda>c. c \<noteq> [] \<and> c \<noteq> ''.'') (split_on (CHR ''/'') s)
      in if take 2 s = ''//'' \<and> take 3 s \<noteq> ''///'' then ''//'' # parts
         else if s \<noteq> [] \<and> hd s = CHR ''/'' then ''/'' # parts
         else parts)"

definition str_path :: "path \<Rightarrow> string" where
  "str_path p =
     (case p of
        [] \<Rightarrow> ''.''
      | x # xs \<Rightarrow> if x = ''/'' \<or> x = ''//'' then x @ join ''/'' xs else join ''/'' p)"

text \<open>\<open>a / b\<close> for a relative \<open>b\<close>.\<close>

definition pjoin :: "path \<Rightarrow> path \<Rightarrow> path" where
  "pjoin a b = a @ b"

definition parent :: "path \<Rightarrow> path" where
  "parent p = (if p = [] \<or> p = [''/''] \<or> p = [''//''] then p else butlast p)"

definition name :: "path \<Rightarrow> string" where
  "name p = (if p = [] \<or> p = [''/''] \<or> p = [''//''] then [] else last p)"

subsection \<open>Exceptions\<close>

text \<open>
  An exception carries a string: its message, or the name of the file when the operating
  system raises it.
\<close>

datatype error =
    ValueError string
  | OSError string
  | RuntimeError string
  | FileNotFoundError string
  | IsADirectoryError string
  | NotADirectoryError string
  | FileExistsError string
  | ZeroDivisionError string
  | UnexpectedExit int

text \<open>The exception raised, if any, and the state left behind.\<close>

type_synonym 's outcome = "error option \<times> 's"

subsection \<open>The file system\<close>

text \<open>
  The file system maps a location to the entry there. A location is a path with no
  symbolic link among its components; the paths that the script hands to the operating
  system are resolved to locations first, the way the system does it.
\<close>

datatype node = Symlink path | RegularFile | Directory | Special

type_synonym filesystem = "path \<Rightarrow> node option"

text \<open>
  Resolution walks the components from the location \<open>cur\<close>. A component that is a symbolic
  link is replaced by the target of the link (an absolute target starts again at the
  root, which \<open>//\<close> names as well; a relative one goes on from the directory of the link);
  the last component is replaced only when \<open>follow_last\<close> holds. The operating system
  resolves a path strictly: every component before the last has to be a directory, and
  the resolution fails at one that is missing or is something else. \<open>Path.resolve()\<close>
  is not strict: it goes on through such a component by name. At most 40 links are
  followed in one resolution, the limit of the system; beyond it the resolution fails.
  The working directory is the location \<open>[]\<close>, and \<open>..\<close> does not climb above it.
\<close>

datatype lookup_failure = NoEntry | NotDir | Loop

fun walk ::
  "nat \<Rightarrow> filesystem \<Rightarrow> bool \<Rightarrow> bool \<Rightarrow> path \<Rightarrow> path \<Rightarrow> lookup_failure + path" where
  "walk fuel fs strict follow_last cur [] = Inr cur"
| "walk fuel fs strict follow_last cur (c # cs) =
     (if c = ''/'' \<or> c = ''//'' then walk fuel fs strict follow_last [''/''] cs
      else if c = ''..'' then
        walk fuel fs strict follow_last (if cur = [''/''] then cur else butlast cur) cs
      else
        (case fs (cur @ [c]) of
           Some (Symlink t) \<Rightarrow>
             if cs = [] \<and> \<not> follow_last then Inr (cur @ [c])
             else (case fuel of
                     0 \<Rightarrow> Inl Loop
                   | Suc n \<Rightarrow> walk n fs strict follow_last cur (t @ cs))
         | Some Directory \<Rightarrow> walk fuel fs strict follow_last (cur @ [c]) cs
         | None \<Rightarrow>
             if strict \<and> cs \<noteq> [] then Inl NoEntry
             else walk fuel fs strict follow_last (cur @ [c]) cs
         | Some n \<Rightarrow>
             if strict \<and> cs \<noteq> [] then Inl NotDir
             else walk fuel fs strict follow_last (cur @ [c]) cs))"

text \<open>
  The location of the entry that a path names (what \<open>lstat\<close>, \<open>unlink\<close> and \<open>rmtree\<close> act
  on), the location after all links (what \<open>stat\<close> and \<open>open\<close> act on), and the result of
  \<open>Path.resolve()\<close>.
\<close>

definition locate :: "filesystem \<Rightarrow> path \<Rightarrow> lookup_failure + path" where
  "locate fs p = walk 40 fs True False [] p"

definition target :: "filesystem \<Rightarrow> path \<Rightarrow> lookup_failure + path" where
  "target fs p = walk 40 fs True True [] p"

definition resolve :: "filesystem \<Rightarrow> path \<Rightarrow> lookup_failure + path" where
  "resolve fs p = walk 40 fs False True [] p"

definition lstat :: "filesystem \<Rightarrow> path \<Rightarrow> node option" where
  "lstat fs p = (case locate fs p of Inl f \<Rightarrow> None | Inr q \<Rightarrow> fs q)"

definition stat :: "filesystem \<Rightarrow> path \<Rightarrow> node option" where
  "stat fs p = (case target fs p of Inl f \<Rightarrow> None | Inr q \<Rightarrow> fs q)"

text \<open>
  \<open>is_symlink\<close> looks at the entry itself; \<open>is_file\<close> and \<open>is_dir\<close> follow symbolic links.
  pathlib reports a path that does not resolve as \<open>False\<close>.
\<close>

definition is_symlink :: "filesystem \<Rightarrow> path \<Rightarrow> bool" where
  "is_symlink fs p = (case lstat fs p of Some (Symlink t) \<Rightarrow> True | _ \<Rightarrow> False)"

definition is_file :: "filesystem \<Rightarrow> path \<Rightarrow> bool" where
  "is_file fs p = (stat fs p = Some RegularFile)"

definition is_dir :: "filesystem \<Rightarrow> path \<Rightarrow> bool" where
  "is_dir fs p = (stat fs p = Some Directory)"

text \<open>The exception that the operating system raises for a failed resolution.\<close>

definition os_error :: "lookup_failure \<Rightarrow> path \<Rightarrow> error" where
  "os_error f p =
     (case f of
        NoEntry \<Rightarrow> FileNotFoundError (str_path p)
      | NotDir \<Rightarrow> NotADirectoryError (str_path p)
      | Loop \<Rightarrow> OSError (str_path p))"

text \<open>\<open>Path.unlink(missing_ok)\<close>: removes the entry itself, never what a link points to.\<close>

definition unlink :: "path \<Rightarrow> bool \<Rightarrow> filesystem \<Rightarrow> filesystem outcome" where
  "unlink p missing_ok fs =
     (case locate fs p of
        Inl f \<Rightarrow>
          if f = NoEntry \<and> missing_ok then (None, fs) else (Some (os_error f p), fs)
      | Inr q \<Rightarrow>
          (case fs q of
             None \<Rightarrow>
               if missing_ok then (None, fs) else (Some (FileNotFoundError (str_path p)), fs)
           | Some Directory \<Rightarrow> (Some (IsADirectoryError (str_path p)), fs)
           | Some n \<Rightarrow> (None, fs(q := None))))"

text \<open>
  \<open>shutil.rmtree(p, ignore_errors)\<close>: removes the directory and every entry below its
  location; it refuses a symbolic link and anything that is not a directory.
\<close>

definition rmtree :: "path \<Rightarrow> bool \<Rightarrow> filesystem \<Rightarrow> filesystem outcome" where
  "rmtree p ignore_errors fs =
     (case locate fs p of
        Inl f \<Rightarrow> if ignore_errors then (None, fs) else (Some (os_error f p), fs)
      | Inr q \<Rightarrow>
          (case fs q of
             Some Directory \<Rightarrow> (None, (\<lambda>x. if prefix q x then None else fs x))
           | None \<Rightarrow>
               if ignore_errors then (None, fs)
               else (Some (FileNotFoundError (str_path p)), fs)
           | Some (Symlink t) \<Rightarrow>
               if ignore_errors then (None, fs)
               else (Some (OSError ''Cannot call rmtree on a symbolic link''), fs)
           | Some n \<Rightarrow>
               if ignore_errors then (None, fs)
               else (Some (NotADirectoryError (str_path p)), fs)))"

subsection \<open>rm\<close>

text \<open>
  The glob expansion \<open>path.parent.glob(path.name)\<close> belongs to pathlib; it is a parameter:
  from the file system, a directory and a pattern to the matching paths, or to the
  exception that pathlib raises for a pattern it does not accept.
\<close>

type_synonym globber = "filesystem \<Rightarrow> path \<Rightarrow> string \<Rightarrow> error + path list"

text \<open>The body of the \<open>try\<close> statement, for one path.\<close>

definition rm_try :: "path \<Rightarrow> bool \<Rightarrow> bool \<Rightarrow> filesystem \<Rightarrow> filesystem outcome" where
  "rm_try p recursive force fs =
     (if is_symlink fs p \<or> is_file fs p then unlink p force fs
      else if is_dir fs p then
        (if recursive then rmtree p force fs
         else (Some (IsADirectoryError
                 (''Cannot remove directory '' @ [CHR 0x27] @ str_path p @ [CHR 0x27]
                    @ '' without recursive=True'')), fs))
      else
        (if \<not> force then
           (Some (OSError (''Unknown file type: '' @ [CHR 0x27] @ str_path p @ [CHR 0x27])), fs)
         else (None, fs)))"

text \<open>The \<open>try\<close> statement with its two handlers.\<close>

definition rm_one :: "path \<Rightarrow> bool \<Rightarrow> bool \<Rightarrow> filesystem \<Rightarrow> filesystem outcome" where
  "rm_one p recursive force fs =
     (case rm_try p recursive force fs of
        (None, fs') \<Rightarrow> (None, fs')
      | (Some (FileNotFoundError m), fs') \<Rightarrow>
          if \<not> force then (Some (FileNotFoundError m), fs') else (None, fs')
      | (Some e, fs') \<Rightarrow>
          if \<not> force then (Some e, fs') else (None, fs'))"

text \<open>The \<open>for\<close> loop: an exception that leaves a handler ends it.\<close>

fun rm_loop :: "path list \<Rightarrow> bool \<Rightarrow> bool \<Rightarrow> filesystem \<Rightarrow> filesystem outcome" where
  "rm_loop [] recursive force fs = (None, fs)"
| "rm_loop (p # ps) recursive force fs =
     (case rm_one p recursive force fs of
        (None, fs') \<Rightarrow> rm_loop ps recursive force fs'
      | (Some e, fs') \<Rightarrow> (Some e, fs'))"

text \<open>
  \<open>rm(path, recursive, force, use_glob)\<close>. The argument is the \<open>Path\<close> that the first
  line of the function makes of it. The glob is a generator: the exception of a pattern
  that pathlib does not accept is raised when the \<open>for\<close> statement asks for the first
  path, outside the \<open>try\<close> statement, so no handler sees it.
\<close>

definition rm :: "globber \<Rightarrow> path \<Rightarrow> bool \<Rightarrow> bool \<Rightarrow> bool \<Rightarrow> filesystem \<Rightarrow> filesystem outcome" where
  "rm glob p recursive force use_glob fs =
     (case (if use_glob then glob fs (parent p) (name p) else Inr [p]) of
        Inl e \<Rightarrow> (Some e, fs)
      | Inr paths \<Rightarrow> rm_loop paths recursive force fs)"

text \<open>
  A glob for the examples: the checks that pathlib makes of a pattern, and a pattern
  without wildcards, which matches the entry of that name when it exists. It stands for
  pathlib on such patterns only.
\<close>

fun double_star :: "string \<Rightarrow> bool" where
  "double_star (a # b # cs) = ((a = CHR ''*'' \<and> b = CHR ''*'') \<or> double_star (b # cs))"
| "double_star cs = False"

definition literal_glob :: globber where
  "literal_glob fs d pat =
     (if pat = [] then Inl (ValueError (''Unacceptable pattern: '' @ [CHR 0x27, CHR 0x27]))
      else if double_star pat \<and> pat \<noteq> ''**'' then
        Inl (ValueError (''Invalid pattern: '' @ [CHR 0x27] @ ''**'' @ [CHR 0x27]
                           @ '' can only be an entire path component''))
      else Inr (if stat fs (d @ [pat]) = None then [] else [d @ [pat]]))"

subsection \<open>Python floats\<close>

text \<open>
  The drawing's dimensions are Python floats (IEEE binary64). A finite float is the
  rational it denotes; every operation rounds the exact result to the nearest float,
  ties to even, with 53 significant bits, gradual underflow below \<open>2^-1022\<close> and overflow
  to infinity from \<open>2^1024\<close>. The sign of zero is not modelled.
\<close>

datatype pyfloat = Finite rat | Infinity bool | NaN

definition pow2 :: "int \<Rightarrow> rat" where
  "pow2 e = (if 0 \<le> e then 2 ^ nat e else 1 / 2 ^ nat (- e))"

text \<open>\<open>\<lfloor>log\<^sub>2 x\<rfloor>\<close> for a positive rational.\<close>

definition ilog2 :: "rat \<Rightarrow> int" where
  "ilog2 x =
     (let e = bitlen (fst (quotient_of x)) - bitlen (snd (quotient_of x))
      in if pow2 e \<le> x then e else e - 1)"

definition round_half_even :: "rat \<Rightarrow> int" where
  "round_half_even y =
     (let f = \<lfloor>y\<rfloor>; r = y - of_int f
      in if r < 1 / 2 then f
         else if 1 / 2 < r then f + 1
         else if even f then f else f + 1)"

definition rnd :: "rat \<Rightarrow> pyfloat" where
  "rnd x =
     (if x = 0 then Finite 0
      else
        let e = max (ilog2 \<bar>x\<bar>) (- 1022);
            q = pow2 (e - 52);
            y = of_int (round_half_even (x / q)) * q
        in if pow2 1024 \<le> \<bar>y\<bar> then Infinity (0 < x) else Finite y)"

fun fmul :: "pyfloat \<Rightarrow> pyfloat \<Rightarrow> pyfloat" where
  "fmul (Finite a) (Finite b) = rnd (a * b)"
| "fmul NaN b = NaN"
| "fmul a NaN = NaN"
| "fmul (Infinity s) (Finite b) = (if b = 0 then NaN else Infinity (s = (0 < b)))"
| "fmul (Finite a) (Infinity t) = (if a = 0 then NaN else Infinity (t = (0 < a)))"
| "fmul (Infinity s) (Infinity t) = Infinity (s = t)"

text \<open>Python's \<open>a / b\<close> raises on a zero divisor, whatever the dividend.\<close>

fun fquot :: "pyfloat \<Rightarrow> pyfloat \<Rightarrow> pyfloat" where
  "fquot (Finite a) (Finite b) = rnd (a / b)"
| "fquot NaN b = NaN"
| "fquot a NaN = NaN"
| "fquot (Infinity s) (Finite b) = Infinity (s = (0 < b))"
| "fquot (Finite a) (Infinity t) = Finite 0"
| "fquot (Infinity s) (Infinity t) = NaN"

definition fdiv :: "pyfloat \<Rightarrow> pyfloat \<Rightarrow> error + pyfloat" where
  "fdiv a b =
     (if b = Finite 0 then Inl (ZeroDivisionError ''float division by zero'')
      else Inr (fquot a b))"

text \<open>\<open>a > b\<close>; every comparison with a NaN is false.\<close>

fun fgt :: "pyfloat \<Rightarrow> pyfloat \<Rightarrow> bool" where
  "fgt (Finite a) (Finite b) = (b < a)"
| "fgt NaN b = False"
| "fgt a NaN = False"
| "fgt (Infinity s) (Finite b) = s"
| "fgt (Finite a) (Infinity t) = (\<not> t)"
| "fgt (Infinity s) (Infinity t) = (s \<and> \<not> t)"

text \<open>\<open>max(a, b)\<close> keeps its first argument unless the second is greater.\<close>

definition py_max :: "pyfloat \<Rightarrow> pyfloat \<Rightarrow> pyfloat" where
  "py_max a b = (if fgt b a then b else a)"

subsection \<open>The world\<close>

text \<open>The fields of a ReportLab drawing that the script reads and writes.\<close>

record drawing =
  width :: pyfloat
  height :: pyfloat
  renderScale :: pyfloat

datatype event =
    Printed string
  | Ran string
  | Parsed path
  | DrawnToPDF drawing
  | Rasterized bool "int option"
  | Saved path

record world =
  trace :: "event list"
  files :: filesystem

text \<open>
  What the script cannot decide: the path of the KiCad executable found at import, the
  exit status of a command line, what svglib makes of a file, and pathlib's glob.
  The files that the KiCad tool writes are not tracked.
\<close>

record environment =
  KICAD_CLI :: string
  exited :: "string \<Rightarrow> int"
  svg2rlg :: "filesystem \<Rightarrow> path \<Rightarrow> drawing option"
  path_glob :: globber

definition emit :: "event \<Rightarrow> world \<Rightarrow> world" where
  "emit e w = w\<lparr>trace := trace w @ [e]\<rparr>"

definition print :: "string \<Rightarrow> world \<Rightarrow> world" where
  "print s w = emit (Printed s) w"

text \<open>
  \<open>context.run(cmd, echo=True)\<close>: the command runs once; a non-zero exit status raises
  \<open>UnexpectedExit\<close>, which carries the status.
\<close>

definition run :: "environment \<Rightarrow> string \<Rightarrow> world \<Rightarrow> world outcome" where
  "run ctx cmd w =
     (if exited ctx cmd = 0 then (None, emit (Ran cmd) w)
      else (Some (UnexpectedExit (exited ctx cmd)), emit (Ran cmd) w))"

definition on_files :: "(filesystem \<Rightarrow> filesystem outcome) \<Rightarrow> world \<Rightarrow> world outcome" where
  "on_files f w = (case f (files w) of (r, fs') \<Rightarrow> (r, w\<lparr>files := fs'\<rparr>))"

text \<open>Statements in sequence: the first exception ends the sequence.\<close>

fun run_steps :: "('s \<Rightarrow> 's outcome) list \<Rightarrow> 's \<Rightarrow> 's outcome" where
  "run_steps [] w = (None, w)"
| "run_steps (s # ss) w =
     (case s w of
        (None, w') \<Rightarrow> run_steps ss w'
      | (Some e, w') \<Rightarrow> (Some e, w'))"

subsection \<open>Project constants and output paths\<close>

definition PROJECT_NAME :: string where
  "PROJECT_NAME = ''RPi_Pico_SAO_Host''"

definition PROJECT_VERSION_MAJOR :: string where
  "PROJECT_VERSION_MAJOR = ''2''"

definition PCB_PART_NUMBER :: string where
  "PCB_PART_NUMBER = ''100092''"

definition PCB_REV :: string where
  "PCB_REV = ''A''"

definition SCH_PART_NUMBER :: string where
  "SCH_PART_NUMBER = ''100093''"

definition SCH_REV :: string where
  "SCH_REV = ''A''"

definition PCA_PART_NUMBER :: string where
  "PCA_PART_NUMBER = ''100094''"

definition PCA_REV :: string where
  "PCA_REV = ''A''"

definition SCH_PATH :: path where
  "SCH_PATH = Path (PROJECT_NAME @ ''.kicad_sch'')"

definition PCB_PATH :: path where
  "PCB_PATH = Path (PROJECT_NAME @ ''.kicad_pcb'')"

definition OUTPUT_PATH :: path where
  "OUTPUT_PATH = Path (''output/'' @ PROJECT_NAME @ ''_v'' @ PROJECT_VERSION_MAJOR)"

definition REPORT_OUTPUT_PATH :: path where
  "REPORT_OUTPUT_PATH = pjoin OUTPUT_PATH (Path ''Reports'')"

definition ERC_REPORT_PATH :: path where
  "ERC_REPORT_PATH = pjoin REPORT_OUTPUT_PATH
     (Path (PROJECT_NAME @ ''_v'' @ PROJECT_VERSION_MAJOR @ ''_ERC_report.txt''))"

definition DRC_REPORT_PATH :: path where
  "DRC_REPORT_PATH = pjoin REPORT_OUTPUT_PATH
     (Path (PROJECT_NAME @ ''_v'' @ PROJECT_VERSION_MAJOR @ ''_DRC_report.txt''))"

definition PCA_OUTPUT_PATH :: path where
  "PCA_OUTPUT_PATH = pjoin OUTPUT_PATH
     (Path (PROJECT_NAME @ ''_v'' @ PROJECT_VERSION_MAJOR @ ''_PCA_'' @ PCA_PART_NUMBER
              @ ''_Rev_'' @ PCA_REV))"

definition SCH_OUTPUT_PATH :: path where
  "SCH_OUTPUT_PATH = pjoin PCA_OUTPUT_PATH (Path ''Schematic'')"

definition BOM_OUTPUT_PATH :: path where
  "BOM_OUTPUT_PATH = pjoin PCA_OUTPUT_PATH (Path ''BOM'')"

definition SCH_PDF_PATH :: path where
  "SCH_PDF_PATH = pjoin SCH_OUTPUT_PATH
     (Path (PROJECT_NAME @ ''_v'' @ PROJECT_VERSION_MAJOR @ ''_Schematic_'' @ SCH_PART_NUMBER
              @ ''_Rev_'' @ SCH_REV @ ''.pdf''))"

definition SCH_SVG_PATH :: path where
  "SCH_SVG_PATH = pjoin SCH_OUTPUT_PATH
     (Path (PROJECT_NAME @ ''_v'' @ PROJECT_VERSION_MAJOR @ ''_Schematic_'' @ SCH_PART_NUMBER
              @ ''_Rev_'' @ SCH_REV @ ''_SVG''))"

definition SCH_PNG_PATH :: path where
  "SCH_PNG_PATH = pjoin SCH_OUTPUT_PATH
     (Path (PROJECT_NAME @ ''_v'' @ PROJECT_VERSION_MAJOR @ ''_Schematic_'' @ SCH_PART_NUMBER
              @ ''_Rev_'' @ SCH_REV @ ''.png''))"

definition BOM_PATH :: path where
  "BOM_PATH = pjoin BOM_OUTPUT_PATH
     (Path (PROJECT_NAME @ ''_v'' @ PROJECT_VERSION_MAJOR @ ''_ECAD_BOM_'' @ PCA_PART_NUMBER
              @ ''_Rev_'' @ PCA_REV @ ''.csv''))"

definition PCB_OUTPUT_PATH :: path where
  "PCB_OUTPUT_PATH = pjoin OUTPUT_PATH
     (Path (PROJECT_NAME @ ''_v'' @ PROJECT_VERSION_MAJOR @ ''_PCB_'' @ PCB_PART_NUMBER
              @ ''_Rev_'' @ PCB_REV))"

definition GERBERS_PATH :: path where
  "GERBERS_PATH = pjoin PCB_OUTPUT_PATH (Path ''Gerbers'')"

definition ODB_PATH :: path where
  "ODB_PATH = pjoin (pjoin PCB_OUTPUT_PATH (Path ''ODB++'')) (Path (PROJECT_NAME @ ''.zip''))"

definition PCB_PDF_PATH :: path where
  "PCB_PDF_PATH = pjoin PCB_OUTPUT_PATH (Path ''PDF'')"

definition DRILL_FILES_PATH :: path where
  "DRILL_FILES_PATH = pjoin PCB_OUTPUT_PATH (Path ''Drill_Files'')"

definition IPCD356_PATH :: path where
  "IPCD356_PATH = pjoin (pjoin PCB_OUTPUT_PATH (Path ''Netlist'')) (Path (PROJECT_NAME @ ''.d356''))"

definition POSITION_PATH :: path where
  "POSITION_PATH = pjoin (pjoin PCB_OUTPUT_PATH (Path ''Position'')) (Path (PROJECT_NAME @ ''.pos''))"

subsection \<open>Path names: stem, with_suffix, with_name\<close>

text \<open>
  pathlib's suffix starts at the last dot of the name, unless that dot is the first or
  the last character of the name.
\<close>

definition suffix_of :: "string \<Rightarrow> string" where
  "suffix_of nm =
     (let ext = rev (takeWhile (\<lambda>c. c \<noteq> CHR ''.'') (rev nm));
          rest = dropWhile (\<lambda>c. c \<noteq> CHR ''.'') (rev nm)
      in if 1 < length rest \<and> ext \<noteq> [] then CHR ''.'' # ext else [])"

definition stem :: "path \<Rightarrow> string" where
  "stem p = take (length (name p) - length (suffix_of (name p))) (name p)"

definition with_name :: "path \<Rightarrow> string \<Rightarrow> path" where
  "with_name p nm = parent p @ [nm]"

definition with_suffix :: "path \<Rightarrow> string \<Rightarrow> path" where
  "with_suffix p sfx = with_name p (stem p @ sfx)"

subsection \<open>ensure_dir\<close>

text \<open>
  \<open>mkdir(parents=True, exist_ok=True)\<close> at a location, over its ancestors from the
  outermost in: what is in the way of an ancestor is not a directory, what is in the way
  of the directory itself exists; both exceptions name the directory asked for.
\<close>

fun mkdir_parents :: "path list \<Rightarrow> filesystem \<Rightarrow> filesystem outcome" where
  "mkdir_parents [] fs = (None, fs)"
| "mkdir_parents (d # ds) fs =
     (if fs d = Some Directory then mkdir_parents ds fs
      else if fs d = None then mkdir_parents ds (fs(d \<mapsto> Directory))
      else if ds = [] then (Some (FileExistsError (str_path d)), fs)
      else (Some (NotADirectoryError (str_path (last ds))), fs))"

text \<open>
  \<open>path.parent.resolve().mkdir(parents=True, exist_ok=True)\<close>. \<open>resolve\<close> raises
  \<open>RuntimeError\<close> for a loop of symbolic links. The working directory and the root are
  there.
\<close>

definition ensure_dir :: "path \<Rightarrow> filesystem \<Rightarrow> filesystem outcome" where
  "ensure_dir p fs =
     (case resolve fs (parent p) of
        Inl f \<Rightarrow>
          (Some (RuntimeError (''Symlink loop from '' @ [CHR 0x27] @ str_path (parent p)
                                 @ [CHR 0x27])), fs)
      | Inr d \<Rightarrow> mkdir_parents (filter (\<lambda>a. a \<noteq> [] \<and> a \<noteq> [''/'']) (prefixes d)) fs)"

subsection \<open>svg_to_png\<close>

text \<open>
  The scaling step, lines 188 to 193. \<open>scale\<close> is the float that the division makes of
  the argument (an integer below \<open>2^53\<close> converts exactly).
\<close>

definition scale_drawing :: "pyfloat \<Rightarrow> drawing \<Rightarrow> error + drawing" where
  "scale_drawing scale d =
     (let max_dimension = py_max (width d) (height d)
      in case fdiv scale max_dimension of
           Inl e \<Rightarrow> Inl e
         | Inr scale_factor \<Rightarrow>
             Inr (d\<lparr>width := fmul (width d) scale_factor,
                    height := fmul (height d) scale_factor,
                    renderScale := scale_factor\<rparr>))"

text \<open>
  \<open>pixmap.save(png_path)\<close> writes a regular file, over an existing one, where the path
  leads after all links.
\<close>

definition save_png :: "path \<Rightarrow> filesystem \<Rightarrow> filesystem outcome" where
  "save_png p fs =
     (case target fs p of
        Inl f \<Rightarrow> (Some (os_error f p), fs)
      | Inr q \<Rightarrow>
          (case fs q of
             Some Directory \<Rightarrow> (Some (IsADirectoryError (str_path p)), fs)
           | Some Special \<Rightarrow> (None, fs)
           | _ \<Rightarrow> (None, fs(q \<mapsto> RegularFile))))"

definition svg_to_png ::
  "environment \<Rightarrow> path \<Rightarrow> path \<Rightarrow> pyfloat option \<Rightarrow> int option \<Rightarrow> bool \<Rightarrow> world \<Rightarrow> world outcome" where
  "svg_to_png ctx svg_path png_path scale dpi alpha w =
     (let w1 = print (''Generating '' @ str_path png_path @ '' from '' @ str_path svg_path
                        @ ''...'') w
      in if scale \<noteq> None \<and> dpi \<noteq> None then
           (Some (ValueError ''Cannot specify both scale and dpi''), w1)
         else
           let w2 = emit (Parsed svg_path) w1
           in case svg2rlg ctx (files w1) svg_path of
                None \<Rightarrow>
                  (Some (ValueError (''Failed to convert '' @ str_path svg_path
                                       @ '' to ReportLab drawing'')), w2)
              | Some d \<Rightarrow>
                  (case (case scale of None \<Rightarrow> Inr d | Some s \<Rightarrow> scale_drawing s d) of
                     Inl e \<Rightarrow> (Some e, w2)
                   | Inr d' \<Rightarrow>
                       run_steps
                         [\<lambda>w. (None, emit (DrawnToPDF d') w),
                          \<lambda>w. (None, emit (Rasterized alpha dpi) w),
                          on_files (ensure_dir png_path),
                          on_files (save_png png_path),
                          \<lambda>w. (None, emit (Saved png_path) w)] w2))"

subsection \<open>The tool invocation layer\<close>

definition kicad_version_cmd :: "environment \<Rightarrow> string" where
  "kicad_version_cmd ctx = join '' '' [KICAD_CLI ctx, ''version'', ''--format=about'']"

definition kicad_version :: "environment \<Rightarrow> world \<Rightarrow> world outcome" where
  "kicad_version ctx w =
     (case run ctx (kicad_version_cmd ctx) w of
        (Some (UnexpectedExit code), w1) \<Rightarrow>
          (Some (UnexpectedExit code),
           print (newline # ''ERROR: KiCad version check failed with an unexpected exit code (''
                    @ str_int code @ '')'') w1)
      | r \<Rightarrow> r)"

definition schematic_erc_cmd :: "environment \<Rightarrow> path \<Rightarrow> path \<Rightarrow> string" where
  "schematic_erc_cmd ctx schematic_path report_path =
     join '' ''
       [KICAD_CLI ctx, ''sch'', ''erc'',
        ''--output='' @ str_path report_path,
        ''--severity-warning'',
        ''--severity-error'',
        ''--exit-code-violations'',
        str_path schematic_path]"

definition schematic_erc :: "environment \<Rightarrow> path \<Rightarrow> path \<Rightarrow> world \<Rightarrow> world outcome" where
  "schematic_erc ctx schematic_path report_path w =
     (case run ctx (schematic_erc_cmd ctx schematic_path report_path)
             (print ''Running ERC on the schematic...'' w) of
        (Some (UnexpectedExit code), w1) \<Rightarrow>
          (Some (UnexpectedExit code),
           if code = 5 then
             print (''Check '' @ str_path report_path @ '' for details.'')
               (print (newline # ''ERROR: ERC violations found in the schematic.'') w1)
           else
             print (newline # ''ERROR: ERC failed with an unexpected exit code (''
                      @ str_int code @ '')'') w1)
      | r \<Rightarrow> r)"

definition schematic_export_pdf_cmd :: "environment \<Rightarrow> path \<Rightarrow> path \<Rightarrow> string" where
  "schematic_export_pdf_cmd ctx schematic_path pdf_path =
     join '' ''
       [KICAD_CLI ctx, ''sch'', ''export'', ''pdf'',
        ''--output='' @ [CHR 0x22] @ str_path pdf_path @ [CHR 0x22],
        ''--black-and-white'',
        ''--no-background-color'',
        [CHR 0x22] @ str_path schematic_path @ [CHR 0x22]]"

definition schematic_export_pdf :: "environment \<Rightarrow> path \<Rightarrow> path \<Rightarrow> world \<Rightarrow> world outcome" where
  "schematic_export_pdf ctx schematic_path pdf_path w =
     (case run ctx (schematic_export_pdf_cmd ctx schematic_path pdf_path)
             (print ''Exporting Schematic PDF...'' w) of
        (Some (UnexpectedExit code), w1) \<Rightarrow>
          (Some (UnexpectedExit code),
           print (newline # ''ERROR: PDF export from the schematic failed with an unexpected exit code (''
                    @ str_int code @ '')'') w1)
      | r \<Rightarrow> r)"

definition schematic_export_svg_cmd :: "environment \<Rightarrow> path \<Rightarrow> path \<Rightarrow> string" where
  "schematic_export_svg_cmd ctx schematic_path svg_path =
     join '' ''
       [KICAD_CLI ctx, ''sch'', ''export'', ''svg'',
        ''--output='' @ [CHR 0x22] @ str_path svg_path @ [CHR 0x22],
        ''--black-and-white'',
        ''--no-background-color'',
        [CHR 0x22] @ str_path schematic_path @ [CHR 0x22]]"

definition schematic_export_svg :: "environment \<Rightarrow> path \<Rightarrow> path \<Rightarrow> world \<Rightarrow> world outcome" where
  "schematic_export_svg ctx schematic_path svg_path w =
     (case run ctx (schematic_export_svg_cmd ctx schematic_path svg_path)
             (print ''Exporting Schematic SVG...'' w) of
        (Some (UnexpectedExit code), w1) \<Rightarrow>
          (Some (UnexpectedExit code),
           print (newline # ''ERROR: SVG export from the schematic failed with an unexpected exit code (''
                    @ str_int code @ '')'') w1)
      | r \<Rightarrow> r)"

definition schematic_export_bom_cmd :: "environment \<Rightarrow> path \<Rightarrow> path \<Rightarrow> string" where
  "schematic_export_bom_cmd ctx schematic_path bom_path =
     join '' ''
       [KICAD_CLI ctx, ''sch'', ''export'', ''bom'',
        ''--output='' @ [CHR 0x22] @ str_path bom_path @ [CHR 0x22],
        ''--preset='' @ [CHR 0x22] @ ''Common Ground Electronics BOM'' @ [CHR 0x22],
        ''--format-preset='' @ [CHR 0x22] @ ''CSV'' @ [CHR 0x22],
        [CHR 0x22] @ str_path schematic_path @ [CHR 0x22]]"

definition schematic_export_bom :: "environment \<Rightarrow> path \<Rightarrow> path \<Rightarrow> world \<Rightarrow> world outcome" where
  "schematic_export_bom ctx schematic_path bom_path w =
     (case run ctx (schematic_export_bom_cmd ctx schematic_path bom_path)
             (print ''Exporting assembly BOM...'' w) of
        (Some (UnexpectedExit code), w1) \<Rightarrow>
          (Some (UnexpectedExit code),
           print (newline # ''ERROR: BOM export from the schematic failed with an unexpected exit code (''
                    @ str_int code @ '')'') w1)
      | r \<Rightarrow> r)"

definition pcb_drc_cmd :: "environment \<Rightarrow> path \<Rightarrow> path \<Rightarrow> string" where
  "pcb_drc_cmd ctx pcb_path report_path =
     join '' ''
       [KICAD_CLI ctx, ''pcb'', ''drc'',
        ''--output='' @ str_path report_path,
        ''--schematic-parity'',
        ''--severity-warning'',
        ''--severity-error'',
        ''--exit-code-violations'',
        str_path pcb_path]"

definition pcb_drc :: "environment \<Rightarrow> path \<Rightarrow> path \<Rightarrow> world \<Rightarrow> world outcome" where
  "pcb_drc ctx pcb_path report_path w =
     (case run ctx (pcb_drc_cmd ctx pcb_path report_path)
             (print ''Running DRC on the PCB...'' w) of
        (Some (UnexpectedExit code), w1) \<Rightarrow>
          (Some (UnexpectedExit code),
           if code = 5 then
             print (''Check '' @ str_path report_path @ '' for details.'')
               (print (newline # ''ERROR: DRC violations found in the PCB.'') w1)
           else
             print (newline # ''ERROR: DRC failed with an unexpected exit code (''
                      @ str_int code @ '')'') w1)
      | r \<Rightarrow> r)"

definition pcb_export_gerbers_cmd :: "environment \<Rightarrow> path \<Rightarrow> path \<Rightarrow> string \<Rightarrow> string" where
  "pcb_export_gerbers_cmd ctx pcb_path gerbers_path layers =
     join '' ''
       [KICAD_CLI ctx, ''pcb'', ''export'', ''gerbers'',
        ''--output='' @ str_path gerbers_path,
        ''--layers='' @ layers,
        ''--exclude-value'',
        ''--use-drill-file-origin'',
        ''--no-protel-ext'',
        str_path pcb_path]"

definition pcb_export_gerbers ::
  "environment \<Rightarrow> path \<Rightarrow> path \<Rightarrow> string \<Rightarrow> world \<Rightarrow> world outcome" where
  "pcb_export_gerbers ctx pcb_path gerbers_path layers w =
     (case run ctx (pcb_export_gerbers_cmd ctx pcb_path gerbers_path layers)
             (print ''Exporting Gerbers from the PCB...'' w) of
        (Some (UnexpectedExit code), w1) \<Rightarrow>
          (Some (UnexpectedExit code),
           print (newline # ''ERROR: Gerber export from the PCB failed with an unexpected exit code (''
                    @ str_int code @ '')'') w1)
      | r \<Rightarrow> r)"

definition pcb_export_odb_cmd :: "environment \<Rightarrow> path \<Rightarrow> path \<Rightarrow> string" where
  "pcb_export_odb_cmd ctx pcb_path odb_path =
     join '' ''
       [KICAD_CLI ctx, ''pcb'', ''export'', ''odb'',
        ''--output='' @ str_path odb_path,
        str_path pcb_path]"

definition pcb_export_odb :: "environment \<Rightarrow> path \<Rightarrow> path \<Rightarrow> world \<Rightarrow> world outcome" where
  "pcb_export_odb ctx pcb_path odb_path w =
     (case run ctx (pcb_export_odb_cmd ctx pcb_path odb_path)
             (print ''Exporting ODB++ from the PCB...'' w) of
        (Some (UnexpectedExit code), w1) \<Rightarrow>
          (Some (UnexpectedExit code),
           print (newline # ''ERROR: Gerber export from the PCB failed with an unexpected exit code (''
                    @ str_int code @ '')'') w1)
      | r \<Rightarrow> r)"

definition pcb_export_pdf_cmd ::
  "environment \<Rightarrow> path \<Rightarrow> path \<Rightarrow> string \<Rightarrow> bool \<Rightarrow> bool \<Rightarrow> bool \<Rightarrow> string" where
  "pcb_export_pdf_cmd ctx pcb_path pdf_path layers mirror multipage black_and_white =
     join '' ''
       ([KICAD_CLI ctx, ''pcb'', ''export'', ''pdf'',
         ''--output='' @ str_path pdf_path,
         ''--layers='' @ layers,
         ''--exclude-value'',
         ''--include-border-title'',
         ''--common-layers=Edge.Cuts'',
         ''--drill-shape-opt=0'',
         str_path pcb_path]
        @ (if mirror then [''--mirror''] else [])
        @ (if multipage then [''--mode-multipage''] else [''--mode-separate''])
        @ (if black_and_white then [''--black-and-white''] else []))"

definition pcb_export_pdf ::
  "environment \<Rightarrow> path \<Rightarrow> path \<Rightarrow> string \<Rightarrow> bool \<Rightarrow> bool \<Rightarrow> bool \<Rightarrow> world \<Rightarrow> world outcome" where
  "pcb_export_pdf ctx pcb_path pdf_path layers mirror multipage black_and_white w =
     (case run ctx (pcb_export_pdf_cmd ctx pcb_path pdf_path layers mirror multipage black_and_white)
             (print ''Exporting PDF from the PCB...'' w) of
        (Some (UnexpectedExit code), w1) \<Rightarrow>
          (Some (UnexpectedExit code),
           print (newline # ''ERROR: PDF export from the PCB failed with an unexpected exit code (''
                    @ str_int code @ '')'') w1)
      | r \<Rightarrow> r)"

definition pcb_export_drill_cmd :: "environment \<Rightarrow> path \<Rightarrow> path \<Rightarrow> string" where
  "pcb_export_drill_cmd ctx pcb_path drill_file_path =
     join '' ''
       [KICAD_CLI ctx, ''pcb'', ''export'', ''drill'',
        ''--output='' @ str_path drill_file_path,
        ''--drill-origin=plot'',
        ''--generate-map'',
        str_path pcb_path]"

definition pcb_export_drill :: "environment \<Rightarrow> path \<Rightarrow> path \<Rightarrow> world \<Rightarrow> world outcome" where
  "pcb_export_drill ctx pcb_path drill_file_path w =
     (case run ctx (pcb_export_drill_cmd ctx pcb_path drill_file_path)
             (print ''Exporting drill file from the PCB...'' w) of
        (Some (UnexpectedExit code), w1) \<Rightarrow>
          (Some (UnexpectedExit code),
           print (newline # ''ERROR: Drill file export from the PCB failed with an unexpected exit code (''
                    @ str_int code @ '')'') w1)
      | r \<Rightarrow> r)"

definition pcb_export_ipcd356_cmd :: "environment \<Rightarrow> path \<Rightarrow> path \<Rightarrow> string" where
  "pcb_export_ipcd356_cmd ctx pcb_path ipcd356_path =
     join '' ''
       [KICAD_CLI ctx, ''pcb'', ''export'', ''ipcd356'',
        ''--output='' @ str_path ipcd356_path,
        str_path pcb_path]"

definition pcb_export_ipcd356 :: "environment \<Rightarrow> path \<Rightarrow> path \<Rightarrow> world \<Rightarrow> world outcome" where
  "pcb_export_ipcd356 ctx pcb_path ipcd356_path w =
     (case run ctx (pcb_export_ipcd356_cmd ctx pcb_path ipcd356_path)
             (print ''Exporting IPC-D-356 netlist from the PCB...'' w) of
        (Some (UnexpectedExit code), w1) \<Rightarrow>
          (Some (UnexpectedExit code),
           print (newline # ''ERROR: IPC-D-356 netlist export from the PCB failed with an unexpected exit code (''
                    @ str_int code @ '')'') w1)
      | r \<Rightarrow> r)"

definition pcb_export_pos_cmd :: "environment \<Rightarrow> path \<Rightarrow> path \<Rightarrow> string" where
  "pcb_export_pos_cmd ctx pcb_path position_path =
     join '' ''
       [KICAD_CLI ctx, ''pcb'', ''export'', ''pos'',
        ''--output='' @ str_path position_path,
        ''--use-drill-file-origin'',
        str_path pcb_path]"

definition pcb_export_pos :: "environment \<Rightarrow> path \<Rightarrow> path \<Rightarrow> world \<Rightarrow> world outcome" where
  "pcb_export_pos ctx pcb_path position_path w =
     (case run ctx (pcb_export_pos_cmd ctx pcb_path position_path)
             (print ''Exporting position file from the PCB...'' w) of
        (Some (UnexpectedExit code), w1) \<Rightarrow>
          (Some (UnexpectedExit code),
           print (newline # ''ERROR: position file export from the PCB failed with an unexpected exit code (''
                    @ str_int code @ '')'') w1)
      | r \<Rightarrow> r)"

definition pcb_render_cmd ::
  "environment \<Rightarrow> path \<Rightarrow> path \<Rightarrow> int \<Rightarrow> int \<Rightarrow> string \<Rightarrow> string \<Rightarrow> bool \<Rightarrow> int \<Rightarrow> string" where
  "pcb_render_cmd ctx pcb_path render_path wd ht side background perspective zoom =
     join '' ''
       ([KICAD_CLI ctx, ''pcb'', ''render'',
         ''--output='' @ str_path render_path,
         ''--width='' @ str_int wd,
         ''--height='' @ str_int ht,
         ''--side='' @ side,
         ''--background='' @ background,
         ''--zoom='' @ str_int zoom,
         str_path pcb_path]
        @ (if perspective then [''--perspective''] else []))"

definition pcb_render ::
  "environment \<Rightarrow> path \<Rightarrow> path \<Rightarrow> int \<Rightarrow> int \<Rightarrow> string \<Rightarrow> string \<Rightarrow> bool \<Rightarrow> int
     \<Rightarrow> world \<Rightarrow> world outcome" where
  "pcb_render ctx pcb_path render_path wd ht side background perspective zoom w =
     (case run ctx (pcb_render_cmd ctx pcb_path render_path wd ht side background perspective zoom)
             (print ''Generating render from the PCB...'' w) of
        (Some (UnexpectedExit code), w1) \<Rightarrow>
          (Some (UnexpectedExit code),
           print (newline # ''ERROR: IPC-D-356 netlist export from the PCB failed with an unexpected exit code (''
                    @ str_int code @ '')'') w1)
      | r \<Rightarrow> r)"

subsection \<open>Tasks\<close>



definition env :: "environment \<Rightarrow> world \<Rightarrow> world outcome" where
  "env ctx w = kicad_version ctx w"

definition check :: "environment \<Rightarrow> world \<Rightarrow> world outcome" where
  "check ctx w =
     run_steps
       [schematic_erc ctx SCH_PATH ERC_REPORT_PATH,
        pcb_drc ctx PCB_PATH DRC_REPORT_PATH] w"

text \<open>The body of \<open>release\<close>; the defaults of the keyword arguments are written out.\<close>

definition release_steps :: "environment \<Rightarrow> (world \<Rightarrow> world outcome) list" where
  "release_steps ctx =
     [schematic_export_pdf ctx SCH_PATH SCH_PDF_PATH,
      schematic_export_svg ctx SCH_PATH SCH_SVG_PATH,
      svg_to_png ctx (pjoin SCH_SVG_PATH (Path (PROJECT_NAME @ ''.svg'')))
        (with_suffix SCH_PNG_PATH ''.png'') None (Some 300) False,
      svg_to_png ctx (pjoin SCH_SVG_PATH (Path (PROJECT_NAME @ ''.svg'')))
        (with_name SCH_PNG_PATH (stem SCH_PNG_PATH @ ''_thumbnail.png''))
        (Some (Finite 500)) None False,
      schematic_export_bom ctx SCH_PATH BOM_PATH,
      pcb_export_gerbers ctx PCB_PATH GERBERS_PATH
        ''F.Cu,B.Cu,F.Paste,B.Paste,F.Silkscreen,B.Silkscreen,F.Mask,B.Mask,User.Drawings,User.Comments,Edge.Cuts,F.Fab,B.Fab,User.1,User.2'',
      pcb_export_drill ctx PCB_PATH DRILL_FILES_PATH,
      pcb_export_ipcd356 ctx PCB_PATH IPCD356_PATH,
      pcb_export_pdf ctx PCB_PATH PCB_PDF_PATH
        ''F.Cu,F.Paste,F.Silkscreen,F.Mask,User.Drawings,User.Comments,Edge.Cuts,F.Fab,User.1''
        False False True,
      pcb_export_pdf ctx PCB_PATH PCB_PDF_PATH
        ''B.Cu,B.Paste,B.Silkscreen,B.Mask,B.Fab,User.2''
        True False True,
      pcb_export_pos ctx PCB_PATH POSITION_PATH]"

definition release :: "environment \<Rightarrow> world \<Rightarrow> world outcome" where
  "release ctx w = run_steps (release_steps ctx) w"

text \<open>
  \<open>@task(pre=[env, check])\<close>: invoking the task \<open>release\<close> runs \<open>env\<close>, then \<open>check\<close>, then
  the body, and an exception of a pre-task ends the run.
\<close>

definition release_task :: "environment \<Rightarrow> world \<Rightarrow> world outcome" where
  "release_task ctx w = run_steps [env ctx, check ctx, release ctx] w"

text \<open>The command lines of the body of \<open>release\<close>, in the order they are written.\<close>

definition release_cmds :: "environment \<Rightarrow> string list" where
  "release_cmds ctx =
     [schematic_export_pdf_cmd ctx SCH_PATH SCH_PDF_PATH,
      schematic_export_svg_cmd ctx SCH_PATH SCH_SVG_PATH,
      schematic_export_bom_cmd ctx SCH_PATH BOM_PATH,
      pcb_export_gerbers_cmd ctx PCB_PATH GERBERS_PATH
        ''F.Cu,B.Cu,F.Paste,B.Paste,F.Silkscreen,B.Silkscreen,F.Mask,B.Mask,User.Drawings,User.Comments,Edge.Cuts,F.Fab,B.Fab,User.1,User.2'',
      pcb_export_drill_cmd ctx PCB_PATH DRILL_FILES_PATH,
      pcb_export_ipcd356_cmd ctx PCB_PATH IPCD356_PATH,
      pcb_export_pdf_cmd ctx PCB_PATH PCB_PDF_PATH
        ''F.Cu,F.Paste,F.Silkscreen,F.Mask,User.Drawings,User.Comments,Edge.Cuts,F.Fab,User.1''
        False False True,
      pcb_export_pdf_cmd ctx PCB_PATH PCB_PDF_PATH
        ''B.Cu,B.Paste,B.Silkscreen,B.Mask,B.Fab,User.2''
        True False True,
      pcb_export_pos_cmd ctx PCB_PATH POSITION_PATH]"

text \<open>The command lines that a trace ran, in order.\<close>

fun ran :: "event list \<Rightarrow> string list" where
  "ran [] = []"
| "ran (Ran c # es) = c # ran es"
| "ran (e # es) = ran es"

subsection \<open>The uniform treatment of an exit status\<close>

text \<open>
  What the specification says of a tool invocation that has no status of its own: the
  banner is printed, the command runs once, status 0 is a normal return, and every other
  status prints the diagnostic with the number and raises the exception again. The
  functions above are compared with it.
\<close>

definition generic_exit_handling ::
  "environment \<Rightarrow> string list \<Rightarrow> string \<Rightarrow> string \<Rightarrow> world \<Rightarrow> world outcome" where
  "generic_exit_handling ctx banner cmd what w =
     (if exited ctx cmd = 0 then
        (None, w\<lparr>trace := trace w @ map Printed banner @ [Ran cmd]\<rparr>)
      else
        (Some (UnexpectedExit (exited ctx cmd)),
         w\<lparr>trace := trace w @ map Printed banner @
            [Ran cmd,
             Printed (newline # ''ERROR: '' @ what @ '' failed with an unexpected exit code (''
                        @ str_int (exited ctx cmd) @ '')'')]\<rparr>))"

text \<open>Every command of the list but the last exited with status 0.\<close>

fun halts_at_failure :: "environment \<Rightarrow> string list \<Rightarrow> bool" where
  "halts_at_failure ctx [] = True"
| "halts_at_failure ctx [c] = True"
| "halts_at_failure ctx (c # d # cs) = (exited ctx c = 0 \<and> halts_at_failure ctx (d # cs))"

text \<open>The command lines of \<open>env\<close>, \<open>check\<close> and the body of \<open>release\<close>, in that order.\<close>

definition release_task_cmds :: "environment \<Rightarrow> string list" where
  "release_task_cmds ctx =
     [kicad_version_cmd ctx,
      schematic_erc_cmd ctx SCH_PATH ERC_REPORT_PATH,
      pcb_drc_cmd ctx PCB_PATH DRC_REPORT_PATH] @ release_cmds ctx"

subsection \<open>Example inputs\<close>

definition empty_fs :: filesystem where
  "empty_fs = (\<lambda>p. None)"

definition sample_files :: filesystem where
  "sample_files =
     empty_fs
       ([''output''] \<mapsto> Directory,
        [''output'', ''RPi_Pico_SAO_Host_v2''] \<mapsto> Directory,
        [''output'', ''RPi_Pico_SAO_Host_v2'', ''Reports''] \<mapsto> Directory,
        [''output'', ''RPi_Pico_SAO_Host_v2'', ''Reports'', ''erc.txt''] \<mapsto> RegularFile,
        [''RPi_Pico_SAO_Host-backups''] \<mapsto> Directory,
        [''RPi_Pico_SAO_Host-backups'', ''old.zip''] \<mapsto> RegularFile,
        [''fp-info-cache''] \<mapsto> RegularFile,
        [''latest''] \<mapsto> Symlink [''output''])"

definition aliased_files :: filesystem where
  "aliased_files =
     empty_fs
       ([''RPi_Pico_SAO_Host-backups''] \<mapsto> Directory,
        [''RPi_Pico_SAO_Host-backups'', ''old.zip''] \<mapsto> RegularFile,
        [''RPi_Pico_SAO_Host-backups'', ''RPi_Pico_SAO_Host_v2''] \<mapsto> Directory,
        [''RPi_Pico_SAO_Host-backups'', ''RPi_Pico_SAO_Host_v2'', ''keep.zip''] \<mapsto> RegularFile,
        [''output''] \<mapsto> Symlink [''RPi_Pico_SAO_Host-backups''])"

definition sample_drawing :: drawing where
  "sample_drawing = \<lparr>width = Finite 15, height = Finite 10, renderScale = Finite 1\<rparr>"

definition always :: "int \<Rightarrow> string \<Rightarrow> int" where
  "always c cmd = c"

definition failing_on :: "string \<Rightarrow> int \<Rightarrow> string \<Rightarrow> int" where
  "failing_on bad c cmd = (if cmd = bad then c else 0)"

definition sample_ctx :: "(string \<Rightarrow> int) \<Rightarrow> environment" where
  "sample_ctx ex =
     \<lparr>KICAD_CLI = ''kicad-cli'', exited = ex,
      svg2rlg = (\<lambda>fs p. Some sample_drawing),
      path_glob = literal_glob\<rparr>"

definition drc_fails_ctx :: environment where
  "drc_fails_ctx =
     sample_ctx (failing_on (pcb_drc_cmd (sample_ctx (always 0)) PCB_PATH DRC_REPORT_PATH) 5)"

definition svg_fails_ctx :: environment where
  "svg_fails_ctx =
     sample_ctx (failing_on (schematic_export_svg_cmd (sample_ctx (always 0)) SCH_PATH SCH_SVG_PATH) 1)"

definition sample_world :: world where
  "sample_world = \<lparr>trace = [], files = sample_files\<rparr>"

section \<open>Properties\<close>

subsection \<open>rm and clean\<close>

text \<open>Resolution.\<close>

lemma walk_follow:
  "walk fuel fs st fl cur p = Inr q \<Longrightarrow> (\<And>t. fs q \<noteq> Some (Symlink t))
     \<Longrightarrow> walk fuel fs st True cur p = Inr q"
  by (induction fuel fs st fl cur p rule: walk.induct)
     (auto split: if_splits option.splits node.splits nat.splits)


lemma stat_plain:
  assumes "locate fs p = Inr q" and "\<And>t. fs q \<noteq> Some (Symlink t)"
  shows "stat fs p = fs q"
  using walk_follow [of 40 fs True False "[]" p q] assms
  by (simp add: stat_def target_def locate_def)


lemma lstat_located: "locate fs p = Inr q \<Longrightarrow> lstat fs p = fs q"
  by (simp add: lstat_def)

lemma locate_single:
  "c \<noteq> ''/'' \<Longrightarrow> c \<noteq> ''//'' \<Longrightarrow> c \<noteq> ''..'' \<Longrightarrow> locate fs [c] = Inr [c]"
  by (simp add: locate_def split: option.splits node.splits)

lemmas fs_eval = sample_files_def aliased_files_def empty_fs_def locate_def target_def
  resolve_def lstat_def stat_def is_symlink_def is_file_def is_dir_def eval_nat_numeral






lemma rm_loop_single: "rm_loop [p] recursive force fs = rm_one p recursive force fs"
  by (cases "rm_one p recursive force fs") (simp split: option.splits)

lemma rm_no_glob: "rm glob p recursive force False fs = rm_one p recursive force fs"
  by (simp add: rm_def rm_loop_single del: rm_loop.simps)

lemma rm_with_glob:
  "rm glob p recursive force True fs =
     (case glob fs (parent p) (name p) of
        Inl e \<Rightarrow> (Some e, fs)
      | Inr ps \<Rightarrow> rm_loop ps recursive force fs)"
  by (simp add: rm_def)




text \<open>What one pass of the loop can do to the file system.\<close>

lemma unlink_cases:
  "unlink p ok fs = (r, fs') \<Longrightarrow>
     fs' = fs \<or> (\<exists>q. locate fs p = Inr q \<and> fs' = fs(q := None) \<and> fs q \<noteq> Some Directory \<and> r = None)"
  by (auto simp: unlink_def split: sum.splits option.splits node.splits if_splits)

lemma rmtree_cases:
  "rmtree p ig fs = (r, fs') \<Longrightarrow>
     fs' = fs \<or> (\<exists>q. locate fs p = Inr q \<and> fs' = (\<lambda>x. if prefix q x then None else fs x)
                    \<and> fs q = Some Directory \<and> r = None)"
  by (auto simp: rmtree_def split: sum.splits option.splits node.splits if_splits)

lemma rm_try_cases:
  "rm_try p recursive force fs = (r, fs') \<Longrightarrow>
     fs' = fs
     \<or> (\<exists>q. locate fs p = Inr q \<and> fs' = fs(q := None) \<and> fs q \<noteq> Some Directory \<and> r = None)
     \<or> (recursive \<and> (\<exists>q. locate fs p = Inr q \<and> fs' = (\<lambda>x. if prefix q x then None else fs x)
                          \<and> fs q = Some Directory \<and> r = None))"
  by (auto simp: rm_try_def split: if_splits dest: unlink_cases rmtree_cases)

lemma rm_one_snd: "snd (rm_one p recursive force fs) = snd (rm_try p recursive force fs)"
  by (auto simp: rm_one_def split: prod.splits option.splits error.splits)

lemma rm_one_cases:
  "snd (rm_one p recursive force fs) = fs
   \<or> (\<exists>q. locate fs p = Inr q \<and> snd (rm_one p recursive force fs) = fs(q := None)
            \<and> fs q \<noteq> Some Directory)
   \<or> (recursive \<and> (\<exists>q. locate fs p = Inr q
            \<and> snd (rm_one p recursive force fs) = (\<lambda>x. if prefix q x then None else fs x)
            \<and> fs q = Some Directory))"
proof -
  obtain r fs' where eq: "rm_try p recursive force fs = (r, fs')"
    by (cases "rm_try p recursive force fs")
  from rm_try_cases [OF eq] show ?thesis
    unfolding rm_one_snd eq snd_conv by blast
qed




lemma rm_one_keeps_dir:
  "fs x = Some Directory \<Longrightarrow> snd (rm_one p False force fs) x = Some Directory"
  using rm_one_cases [of p False force fs] by auto

lemma rm_loop_keeps_dir:
  "fs x = Some Directory \<Longrightarrow> snd (rm_loop ps False force fs) x = Some Directory"
proof (induction ps arbitrary: fs)
  case Nil
  then show ?case by simp
next
  case (Cons p ps)
  obtain r fs' where eq: "rm_one p False force fs = (r, fs')"
    by (cases "rm_one p False force fs")
  with rm_one_keeps_dir [of fs x p force] Cons.prems have "fs' x = Some Directory" by simp
  with Cons.IH [of fs'] eq Cons.prems show ?case
    by (cases r) simp_all
qed

lemma rm_try_dir:
  "locate fs p = Inr q \<Longrightarrow> fs q = Some Directory \<Longrightarrow>
   rm_try p False force fs =
     (Some (IsADirectoryError (''Cannot remove directory '' @ [CHR 0x27] @ str_path p @ [CHR 0x27]
                    @ '' without recursive=True'')), fs)"
  using stat_plain [of fs p q]
  by (simp add: rm_try_def is_symlink_def is_file_def is_dir_def lstat_def)

text \<open>
  C3 as stated fails: with \<open>force=True\<close> the call on an existing directory returns normally.
\<close>

theorem rm_directory_force_counterexample:
  "sample_files [''RPi_Pico_SAO_Host-backups''] = Some Directory
   \<and> is_dir sample_files [''RPi_Pico_SAO_Host-backups'']
   \<and> rm literal_glob [''RPi_Pico_SAO_Host-backups''] False True False sample_files
       = (None, sample_files)"
  by (simp add: rm_no_glob rm_one_def rm_try_def fs_eval)

text \<open>
  C3, as amended. On an existing directory (the entry that the path leads to is a
  directory, not a link to one) with \<open>recursive=False\<close>, the directory is never deleted, for
  every value of \<open>force\<close> and \<open>use_glob\<close>. With the path taken literally, \<open>rm\<close> raises
  \<open>IsADirectoryError\<close> when \<open>force\<close> is false and leaves the file system unchanged; when
  \<open>force\<close> is true the handler swallows the exception and \<open>rm\<close> returns normally.
\<close>

theorem rm_directory_needs_recursive:
  "locate fs p = Inr q \<Longrightarrow> fs q = Some Directory \<Longrightarrow>
     rm glob p False False False fs =
       (Some (IsADirectoryError (''Cannot remove directory '' @ [CHR 0x27] @ str_path p @ [CHR 0x27]
                    @ '' without recursive=True'')), fs)
     \<and> rm glob p False True False fs = (None, fs)
     \<and> snd (rm glob p False force use_glob fs) q = Some Directory"
proof -
  assume l: "locate fs p = Inr q" and d: "fs q = Some Directory"
  have "snd (rm glob p False force use_glob fs) q = Some Directory"
  proof (cases use_glob)
    case True
    with d show ?thesis
      by (cases "glob fs (parent p) (name p)") (simp_all add: rm_with_glob rm_loop_keeps_dir)
  next
    case False
    with d show ?thesis by (simp add: rm_no_glob rm_one_keeps_dir)
  qed
  with l d show ?thesis
    by (simp add: rm_no_glob rm_one_def rm_try_dir)
qed

theorem rm_directory_needs_recursive_witness:
  "locate sample_files [''RPi_Pico_SAO_Host-backups''] = Inr [''RPi_Pico_SAO_Host-backups'']
   \<and> sample_files [''RPi_Pico_SAO_Host-backups''] = Some Directory
   \<and> rm literal_glob [''RPi_Pico_SAO_Host-backups''] False False False sample_files
       = (Some (IsADirectoryError
            (''Cannot remove directory '' @ [CHR 0x27] @ ''RPi_Pico_SAO_Host-backups'' @ [CHR 0x27]
               @ '' without recursive=True'')), sample_files)
   \<and> rm literal_glob [''RPi_Pico_SAO_Host-backups''] False True False sample_files
       = (None, sample_files)
   \<and> snd (rm literal_glob [''RPi_Pico_SAO_Host-backups''] False False True sample_files)
        [''RPi_Pico_SAO_Host-backups''] = Some Directory"
proof -
  have l: "locate sample_files [''RPi_Pico_SAO_Host-backups'']
             = Inr [''RPi_Pico_SAO_Host-backups'']"
    by (simp add: locate_single)
  have d: "sample_files [''RPi_Pico_SAO_Host-backups''] = Some Directory"
    by (simp add: fs_eval)
  from rm_directory_needs_recursive [where fs = sample_files
      and p = "[''RPi_Pico_SAO_Host-backups'']" and q = "[''RPi_Pico_SAO_Host-backups'']"
      and glob = literal_glob and force = False and use_glob = True, OF l d] l d
  show ?thesis
    by (simp add: str_path_def)
qed



lemma rm_one_symlink:
  "locate fs p = Inr q \<Longrightarrow> fs q = Some (Symlink t) \<Longrightarrow>
   rm_one p recursive force fs = (None, fs(q := None))"
  by (simp add: rm_one_def rm_try_def is_symlink_def lstat_def unlink_def)

text \<open>
  C10. When the entry that a path leads to is a symbolic link (to a directory or to
  anything else), \<open>rm\<close> removes that one entry and nothing else, for every value of
  \<open>recursive\<close> and \<open>force\<close>: the test for a link comes before the test for a directory. With
  \<open>use_glob\<close> the pattern has to expand to the link.
\<close>

theorem rm_symlink_unlinks_only:
  "locate fs p = Inr q \<Longrightarrow> fs q = Some (Symlink t) \<Longrightarrow>
   (use_glob \<longrightarrow> glob fs (parent p) (name p) = Inr [p]) \<Longrightarrow>
   rm glob p recursive force use_glob fs = (None, fs(q := None))"
  by (cases use_glob) (simp_all add: rm_with_glob rm_no_glob rm_loop_single rm_one_symlink
      del: rm_loop.simps)

theorem rm_symlink_unlinks_only_witness:
  "locate sample_files [''latest''] = Inr [''latest'']
   \<and> sample_files [''latest''] = Some (Symlink [''output''])
   \<and> is_dir sample_files [''latest'']
   \<and> literal_glob sample_files (parent [''latest'']) (name [''latest'']) = Inr [[''latest'']]
   \<and> rm literal_glob [''latest''] True True True sample_files
        = (None, sample_files([''latest''] := None))
   \<and> (sample_files([''latest''] := None)) [''output''] = Some Directory
   \<and> (sample_files([''latest''] := None))
        [''output'', ''RPi_Pico_SAO_Host_v2'', ''Reports'', ''erc.txt''] = Some RegularFile"
proof -
  have l: "locate sample_files [''latest''] = Inr [''latest'']"
    by (simp add: locate_single)
  have s: "sample_files [''latest''] = Some (Symlink [''output''])"
    by (simp add: fs_eval)
  have d: "is_dir sample_files [''latest'']"
    by (simp add: fs_eval)
  have g: "literal_glob sample_files (parent [''latest'']) (name [''latest'']) = Inr [[''latest'']]"
    by (simp add: literal_glob_def parent_def name_def fs_eval)
  from g have g': "True \<longrightarrow> literal_glob sample_files (parent [''latest'']) (name [''latest''])
      = Inr [[''latest'']]" by simp
  from rm_symlink_unlinks_only [where fs = sample_files and p = "[''latest'']"
      and q = "[''latest'']" and t = "[''output'']" and glob = literal_glob and use_glob = True
      and recursive = True and force = True, OF l s g']
  have r: "rm literal_glob [''latest''] True True True sample_files
        = (None, sample_files([''latest''] := None))" .
  from l s d g r show ?thesis
    by (simp add: sample_files_def empty_fs_def)
qed














lemma run_steps_single: "run_steps [s] w = s w"
  by (simp split: prod.splits option.splits)






subsection \<open>The tool invocation layer and the tasks\<close>

lemmas tool_unfold = run_def print_def emit_def generic_exit_handling_def

lemma kicad_version_generic:
  "kicad_version ctx w =
     generic_exit_handling ctx [] (kicad_version_cmd ctx) ''KiCad version check'' w"
  by (simp add: kicad_version_def tool_unfold)

lemma schematic_export_pdf_generic:
  "schematic_export_pdf ctx sp1 pp1 w =
     generic_exit_handling ctx [''Exporting Schematic PDF...''] (schematic_export_pdf_cmd ctx sp1 pp1) ''PDF export from the schematic'' w"
  by (simp add: schematic_export_pdf_def tool_unfold)

lemma schematic_export_svg_generic:
  "schematic_export_svg ctx sp2 vp w =
     generic_exit_handling ctx [''Exporting Schematic SVG...''] (schematic_export_svg_cmd ctx sp2 vp) ''SVG export from the schematic'' w"
  by (simp add: schematic_export_svg_def tool_unfold)

lemma schematic_export_bom_generic:
  "schematic_export_bom ctx sp3 bp w =
     generic_exit_handling ctx [''Exporting assembly BOM...''] (schematic_export_bom_cmd ctx sp3 bp) ''BOM export from the schematic'' w"
  by (simp add: schematic_export_bom_def tool_unfold)

lemma pcb_export_gerbers_generic:
  "pcb_export_gerbers ctx bp1 gp layers1 w =
     generic_exit_handling ctx [''Exporting Gerbers from the PCB...''] (pcb_export_gerbers_cmd ctx bp1 gp layers1) ''Gerber export from the PCB'' w"
  by (simp add: pcb_export_gerbers_def tool_unfold)

lemma pcb_export_odb_generic:
  "pcb_export_odb ctx bp2 op w =
     generic_exit_handling ctx [''Exporting ODB++ from the PCB...''] (pcb_export_odb_cmd ctx bp2 op) ''Gerber export from the PCB'' w"
  by (simp add: pcb_export_odb_def tool_unfold)

lemma pcb_export_pdf_generic:
  "pcb_export_pdf ctx bp3 pp2 layers2 mirror multipage black_and_white w =
     generic_exit_handling ctx [''Exporting PDF from the PCB...''] (pcb_export_pdf_cmd ctx bp3 pp2 layers2 mirror multipage black_and_white) ''PDF export from the PCB'' w"
  by (simp add: pcb_export_pdf_def tool_unfold)

lemma pcb_export_drill_generic:
  "pcb_export_drill ctx bp4 dp w =
     generic_exit_handling ctx [''Exporting drill file from the PCB...''] (pcb_export_drill_cmd ctx bp4 dp) ''Drill file export from the PCB'' w"
  by (simp add: pcb_export_drill_def tool_unfold)

lemma pcb_export_ipcd356_generic:
  "pcb_export_ipcd356 ctx bp5 ip w =
     generic_exit_handling ctx [''Exporting IPC-D-356 netlist from the PCB...''] (pcb_export_ipcd356_cmd ctx bp5 ip) ''IPC-D-356 netlist export from the PCB'' w"
  by (simp add: pcb_export_ipcd356_def tool_unfold)

lemma pcb_export_pos_generic:
  "pcb_export_pos ctx bp6 qp w =
     generic_exit_handling ctx [''Exporting position file from the PCB...''] (pcb_export_pos_cmd ctx bp6 qp) ''position file export from the PCB'' w"
  by (simp add: pcb_export_pos_def tool_unfold)

lemma pcb_render_generic:
  "pcb_render ctx bp7 rp wd ht side background perspective zoom w =
     generic_exit_handling ctx [''Generating render from the PCB...''] (pcb_render_cmd ctx bp7 rp wd ht side background perspective zoom) ''IPC-D-356 netlist export from the PCB'' w"
  by (simp add: pcb_render_def tool_unfold)


lemma schematic_erc_other:
  "exited ctx (schematic_erc_cmd ctx sp rp) \<noteq> 5 \<Longrightarrow>
   schematic_erc ctx sp rp w =
     generic_exit_handling ctx [''Running ERC on the schematic...'']
       (schematic_erc_cmd ctx sp rp) ''ERC'' w"
  by (simp add: schematic_erc_def tool_unfold)

lemma pcb_drc_other:
  "exited ctx (pcb_drc_cmd ctx bp rp) \<noteq> 5 \<Longrightarrow>
   pcb_drc ctx bp rp w =
     generic_exit_handling ctx [''Running DRC on the PCB...'']
       (pcb_drc_cmd ctx bp rp) ''DRC'' w"
  by (simp add: pcb_drc_def tool_unfold)

lemma schematic_erc_5:
  "exited ctx (schematic_erc_cmd ctx sp rp) = 5 \<Longrightarrow>
   schematic_erc ctx sp rp w =
     (Some (UnexpectedExit 5),
      w\<lparr>trace := trace w @
         [Printed ''Running ERC on the schematic...'',
          Ran (schematic_erc_cmd ctx sp rp),
          Printed (newline # ''ERROR: ERC violations found in the schematic.''),
          Printed (''Check '' @ str_path rp @ '' for details.'')]\<rparr>)"
  by (simp add: schematic_erc_def run_def print_def emit_def)

lemma pcb_drc_5:
  "exited ctx (pcb_drc_cmd ctx bp rp) = 5 \<Longrightarrow>
   pcb_drc ctx bp rp w =
     (Some (UnexpectedExit 5),
      w\<lparr>trace := trace w @
         [Printed ''Running DRC on the PCB...'',
          Ran (pcb_drc_cmd ctx bp rp),
          Printed (newline # ''ERROR: DRC violations found in the PCB.''),
          Printed (''Check '' @ str_path rp @ '' for details.'')]\<rparr>)"
  by (simp add: pcb_drc_def run_def print_def emit_def)

lemma schematic_erc_normal:
  "fst (schematic_erc ctx sp rp w) = None \<longleftrightarrow> exited ctx (schematic_erc_cmd ctx sp rp) = 0"
  by (simp add: schematic_erc_def run_def print_def emit_def)

lemma pcb_drc_normal:
  "fst (pcb_drc ctx bp rp w) = None \<longleftrightarrow> exited ctx (pcb_drc_cmd ctx bp rp) = 0"
  by (simp add: pcb_drc_def run_def print_def emit_def)

text \<open>
  C1. When the subprocess of \<open>schematic_erc\<close> or of \<open>pcb_drc\<close> exits with status 5, the
  function prints the violation message and then a line that names the report path, and
  raises the \<open>UnexpectedExit\<close> again; it returns normally exactly when the status is 0.
\<close>

theorem erc_drc_violations_reraise:
  "(exited ctx (schematic_erc_cmd ctx sp rp) = 5 \<longrightarrow>
      schematic_erc ctx sp rp w =
        (Some (UnexpectedExit 5),
         w\<lparr>trace := trace w @
            [Printed ''Running ERC on the schematic...'',
             Ran (schematic_erc_cmd ctx sp rp),
             Printed (newline # ''ERROR: ERC violations found in the schematic.''),
             Printed (''Check '' @ str_path rp @ '' for details.'')]\<rparr>))
   \<and> (fst (schematic_erc ctx sp rp w) = None
        \<longleftrightarrow> exited ctx (schematic_erc_cmd ctx sp rp) = 0)
   \<and> (exited ctx (pcb_drc_cmd ctx bp rp') = 5 \<longrightarrow>
      pcb_drc ctx bp rp' w =
        (Some (UnexpectedExit 5),
         w\<lparr>trace := trace w @
            [Printed ''Running DRC on the PCB...'',
             Ran (pcb_drc_cmd ctx bp rp'),
             Printed (newline # ''ERROR: DRC violations found in the PCB.''),
             Printed (''Check '' @ str_path rp' @ '' for details.'')]\<rparr>))
   \<and> (fst (pcb_drc ctx bp rp' w) = None
        \<longleftrightarrow> exited ctx (pcb_drc_cmd ctx bp rp') = 0)"
  using schematic_erc_5 [of ctx sp rp w] pcb_drc_5 [of ctx bp rp' w]
    schematic_erc_normal [of ctx sp rp w] pcb_drc_normal [of ctx bp rp' w]
  by blast

lemma schematic_erc_5_special:
  assumes "exited ctx (schematic_erc_cmd ctx sp rp) = 5"
  shows "schematic_erc ctx sp rp w \<noteq>
          generic_exit_handling ctx [''Running ERC on the schematic...'']
            (schematic_erc_cmd ctx sp rp) ''ERC'' w"
proof
  assume "schematic_erc ctx sp rp w =
          generic_exit_handling ctx [''Running ERC on the schematic...'']
            (schematic_erc_cmd ctx sp rp) ''ERC'' w"
  then have "length (trace (snd (schematic_erc ctx sp rp w))) =
      length (trace (snd (generic_exit_handling ctx [''Running ERC on the schematic...'']
            (schematic_erc_cmd ctx sp rp) ''ERC'' w)))"
    by simp
  with assms show False
    by (simp add: schematic_erc_5 generic_exit_handling_def)
qed

lemma pcb_drc_5_special:
  assumes "exited ctx (pcb_drc_cmd ctx bp rp) = 5"
  shows "pcb_drc ctx bp rp w \<noteq>
          generic_exit_handling ctx [''Running DRC on the PCB...'']
            (pcb_drc_cmd ctx bp rp) ''DRC'' w"
proof
  assume "pcb_drc ctx bp rp w =
          generic_exit_handling ctx [''Running DRC on the PCB...'']
            (pcb_drc_cmd ctx bp rp) ''DRC'' w"
  then have "length (trace (snd (pcb_drc ctx bp rp w))) =
      length (trace (snd (generic_exit_handling ctx [''Running DRC on the PCB...'']
            (pcb_drc_cmd ctx bp rp) ''DRC'' w)))"
    by simp
  with assms show False
    by (simp add: pcb_drc_5 generic_exit_handling_def)
qed

text \<open>
  C9. The version query, every export and the render treat an exit status the uniform
  way, status 5 included: one run of the command, a normal return on 0, and otherwise the
  diagnostic with the number and the exception raised again. \<open>schematic_erc\<close> and
  \<open>pcb_drc\<close> do the same on every status but 5, and something else on 5.
\<close>

theorem other_tools_uniform:
  "kicad_version ctx w =
        generic_exit_handling ctx [] (kicad_version_cmd ctx) ''KiCad version check'' w
   \<and> (\<forall>schematic_path pdf_path.
        schematic_export_pdf ctx schematic_path pdf_path w =
          generic_exit_handling ctx [''Exporting Schematic PDF...'']
            (schematic_export_pdf_cmd ctx schematic_path pdf_path) ''PDF export from the schematic'' w)
   \<and> (\<forall>schematic_path svg_path.
        schematic_export_svg ctx schematic_path svg_path w =
          generic_exit_handling ctx [''Exporting Schematic SVG...'']
            (schematic_export_svg_cmd ctx schematic_path svg_path) ''SVG export from the schematic'' w)
   \<and> (\<forall>schematic_path bom_path.
        schematic_export_bom ctx schematic_path bom_path w =
          generic_exit_handling ctx [''Exporting assembly BOM...'']
            (schematic_export_bom_cmd ctx schematic_path bom_path) ''BOM export from the schematic'' w)
   \<and> (\<forall>pcb_path gerbers_path layers.
        pcb_export_gerbers ctx pcb_path gerbers_path layers w =
          generic_exit_handling ctx [''Exporting Gerbers from the PCB...'']
            (pcb_export_gerbers_cmd ctx pcb_path gerbers_path layers) ''Gerber export from the PCB'' w)
   \<and> (\<forall>pcb_path odb_path.
        pcb_export_odb ctx pcb_path odb_path w =
          generic_exit_handling ctx [''Exporting ODB++ from the PCB...'']
            (pcb_export_odb_cmd ctx pcb_path odb_path) ''Gerber export from the PCB'' w)
   \<and> (\<forall>pcb_path pdf_path layers mirror multipage black_and_white.
        pcb_export_pdf ctx pcb_path pdf_path layers mirror multipage black_and_white w =
          generic_exit_handling ctx [''Exporting PDF from the PCB...'']
            (pcb_export_pdf_cmd ctx pcb_path pdf_path layers mirror multipage black_and_white) ''PDF export from the PCB'' w)
   \<and> (\<forall>pcb_path drill_file_path.
        pcb_export_drill ctx pcb_path drill_file_path w =
          generic_exit_handling ctx [''Exporting drill file from the PCB...'']
            (pcb_export_drill_cmd ctx pcb_path drill_file_path) ''Drill file export from the PCB'' w)
   \<and> (\<forall>pcb_path ipcd356_path.
        pcb_export_ipcd356 ctx pcb_path ipcd356_path w =
          generic_exit_handling ctx [''Exporting IPC-D-356 netlist from the PCB...'']
            (pcb_export_ipcd356_cmd ctx pcb_path ipcd356_path) ''IPC-D-356 netlist export from the PCB'' w)
   \<and> (\<forall>pcb_path position_path.
        pcb_export_pos ctx pcb_path position_path w =
          generic_exit_handling ctx [''Exporting position file from the PCB...'']
            (pcb_export_pos_cmd ctx pcb_path position_path) ''position file export from the PCB'' w)
   \<and> (\<forall>pcb_path render_path wd ht side background perspective zoom.
        pcb_render ctx pcb_path render_path wd ht side background perspective zoom w =
          generic_exit_handling ctx [''Generating render from the PCB...'']
            (pcb_render_cmd ctx pcb_path render_path wd ht side background perspective zoom) ''IPC-D-356 netlist export from the PCB'' w)
   \<and> (\<forall>schematic_path report_path.
        exited ctx (schematic_erc_cmd ctx schematic_path report_path) \<noteq> 5 \<longrightarrow>
        schematic_erc ctx schematic_path report_path w =
          generic_exit_handling ctx [''Running ERC on the schematic...'']
            (schematic_erc_cmd ctx schematic_path report_path) ''ERC'' w)
   \<and> (\<forall>schematic_path report_path.
        exited ctx (schematic_erc_cmd ctx schematic_path report_path) = 5 \<longrightarrow>
        schematic_erc ctx schematic_path report_path w \<noteq>
          generic_exit_handling ctx [''Running ERC on the schematic...'']
            (schematic_erc_cmd ctx schematic_path report_path) ''ERC'' w)
   \<and> (\<forall>pcb_path report_path.
        exited ctx (pcb_drc_cmd ctx pcb_path report_path) \<noteq> 5 \<longrightarrow>
        pcb_drc ctx pcb_path report_path w =
          generic_exit_handling ctx [''Running DRC on the PCB...'']
            (pcb_drc_cmd ctx pcb_path report_path) ''DRC'' w)
   \<and> (\<forall>pcb_path report_path.
        exited ctx (pcb_drc_cmd ctx pcb_path report_path) = 5 \<longrightarrow>
        pcb_drc ctx pcb_path report_path w \<noteq>
          generic_exit_handling ctx [''Running DRC on the PCB...'']
            (pcb_drc_cmd ctx pcb_path report_path) ''DRC'' w)"
  using schematic_erc_5_special [of ctx _ _ w] pcb_drc_5_special [of ctx _ _ w]
  by (simp only: kicad_version_generic schematic_export_pdf_generic schematic_export_svg_generic schematic_export_bom_generic pcb_export_gerbers_generic pcb_export_odb_generic pcb_export_pdf_generic pcb_export_drill_generic pcb_export_ipcd356_generic pcb_export_pos_generic pcb_render_generic simp_thms)
    (simp add: schematic_erc_other pcb_drc_other)

text \<open>
  C5. With both \<open>scale\<close> and \<open>dpi\<close> given, \<open>svg_to_png\<close> raises \<open>ValueError\<close> after its first
  \<open>print\<close>: nothing is parsed, drawn or saved, and the file system is as it was.
\<close>

theorem svg_to_png_scale_and_dpi:
  "svg_to_png ctx svg_path png_path (Some s) (Some d) alpha w =
     (Some (ValueError ''Cannot specify both scale and dpi''),
      w\<lparr>trace := trace w @
         [Printed (''Generating '' @ str_path png_path @ '' from '' @ str_path svg_path @ ''...'')]\<rparr>)
   \<and> files (snd (svg_to_png ctx svg_path png_path (Some s) (Some d) alpha w)) = files w"
  by (simp add: svg_to_png_def print_def emit_def)

lemma ran_append: "ran (xs @ ys) = ran xs @ ran ys"
  by (induction xs rule: ran.induct) simp_all

lemma ran_Printed: "ran (map Printed b) = []"
  by (induction b) simp_all

lemma generic_ran:
  "ran (trace (snd (generic_exit_handling ctx b cmd what w))) = ran (trace w) @ [cmd]"
  by (simp add: generic_exit_handling_def ran_append ran_Printed)

lemma generic_fst:
  "fst (generic_exit_handling ctx b cmd what w) = None \<longleftrightarrow> exited ctx cmd = 0"
  by (simp add: generic_exit_handling_def)

lemma generic_files: "files (snd (generic_exit_handling ctx b cmd what w)) = files w"
  by (simp add: generic_exit_handling_def)

lemma schematic_erc_ran:
  "ran (trace (snd (schematic_erc ctx sp rp w))) = ran (trace w) @ [schematic_erc_cmd ctx sp rp]"
  by (simp add: schematic_erc_def run_def print_def emit_def ran_append)

lemma pcb_drc_ran:
  "ran (trace (snd (pcb_drc ctx bp rp w))) = ran (trace w) @ [pcb_drc_cmd ctx bp rp]"
  by (simp add: pcb_drc_def run_def print_def emit_def ran_append)

lemma schematic_erc_files: "files (snd (schematic_erc ctx sp rp w)) = files w"
  by (simp add: schematic_erc_def run_def print_def emit_def)

lemma pcb_drc_files: "files (snd (pcb_drc ctx bp rp w)) = files w"
  by (simp add: pcb_drc_def run_def print_def emit_def)

lemma on_files_ran: "ran (trace (snd (on_files f w))) = ran (trace w)"
  by (simp add: on_files_def split: prod.splits)

lemma run_steps_silent:
  "(\<And>s w. s \<in> set steps \<Longrightarrow> ran (trace (snd (s w))) = ran (trace w)) \<Longrightarrow>
   ran (trace (snd (run_steps steps w))) = ran (trace w)"
proof (induction steps arbitrary: w)
  case Nil
  then show ?case by simp
next
  case (Cons s ss)
  obtain r w' where eq: "s w = (r, w')" by (cases "s w")
  have 1: "ran (trace w') = ran (trace w)"
    using Cons.prems [of s w] eq by simp
  show ?case
  proof (cases r)
    case None
    with eq 1 Cons.IH [of w'] Cons.prems show ?thesis by simp
  next
    case (Some e)
    with eq 1 show ?thesis by simp
  qed
qed

lemma emit_ran:
  "ran (trace (emit (Printed s) w)) = ran (trace w)"
  "ran (trace (emit (Parsed p) w)) = ran (trace w)"
  "ran (trace (emit (DrawnToPDF d) w)) = ran (trace w)"
  "ran (trace (emit (Rasterized a dpi) w)) = ran (trace w)"
  "ran (trace (emit (Saved p) w)) = ran (trace w)"
  by (simp_all add: emit_def ran_append)

lemma svg_to_png_ran:
  "ran (trace (snd (svg_to_png ctx svg_path png_path scale dpi alpha w))) = ran (trace w)"
proof -
  have steps: "ran (trace (snd (run_steps
                         [\<lambda>w. (None, emit (DrawnToPDF d') w),
                          \<lambda>w. (None, emit (Rasterized alpha dp) w),
                          on_files (ensure_dir png_path),
                          on_files (save_png png_path),
                          \<lambda>w. (None, emit (Saved png_path) w)] w2))) = ran (trace w2)" for d' w2 dp
    by (rule run_steps_silent) (auto simp: emit_ran on_files_ran)
  show ?thesis
    unfolding svg_to_png_def Let_def
    by (simp add: steps print_def emit_ran split: option.splits sum.splits
        del: run_steps.simps)
qed

lemma halts_short: "length cs \<le> 1 \<Longrightarrow> halts_at_failure ctx cs"
  by (cases cs; cases "tl cs") auto

lemma halts_append:
  "\<forall>c \<in> set cs. exited ctx c = 0 \<Longrightarrow> halts_at_failure ctx cs' \<Longrightarrow> halts_at_failure ctx (cs @ cs')"
proof (induction cs)
  case Nil
  then show ?case by simp
next
  case (Cons c cs)
  then have "halts_at_failure ctx (cs @ cs')" by simp
  with Cons.prems show ?case by (cases "cs @ cs'") simp_all
qed

lemma run_steps_cmds:
  assumes "list_all2 (\<lambda>s cs. length cs \<le> 1 \<and> (\<forall>w. ran (trace (snd (s w))) = ran (trace w) @ cs
              \<and> (fst (s w) = None \<longrightarrow> (\<forall>c \<in> set cs. exited ctx c = 0)))) steps css"
  shows "\<exists>cs. prefix cs (concat css)
           \<and> ran (trace (snd (run_steps steps w))) = ran (trace w) @ cs
           \<and> halts_at_failure ctx cs
           \<and> (fst (run_steps steps w) = None \<longrightarrow> cs = concat css)"
  using assms
proof (induction steps css arbitrary: w rule: list_all2_induct)
  case Nil
  then show ?case by simp
next
  case (Cons s ss cs css)
  obtain r w' where eq: "s w = (r, w')" by (cases "s w")
  have len: "length cs \<le> 1"
    using Cons.hyps(1) by (rule conjunct1)
  have all: "\<forall>w. ran (trace (snd (s w))) = ran (trace w) @ cs
              \<and> (fst (s w) = None \<longrightarrow> (\<forall>c \<in> set cs. exited ctx c = 0))"
    using Cons.hyps(1) by (rule conjunct2)
  from all have "ran (trace (snd (s w))) = ran (trace w) @ cs
              \<and> (fst (s w) = None \<longrightarrow> (\<forall>c \<in> set cs. exited ctx c = 0))"
    by (rule spec)
  with eq have tr: "ran (trace w') = ran (trace w) @ cs"
    and ok: "r = None \<longrightarrow> (\<forall>c \<in> set cs. exited ctx c = 0)"
    by simp_all
  show ?case
  proof (cases r)
    case (Some e)
    have "prefix cs (concat (cs # css))
        \<and> ran (trace (snd (run_steps (s # ss) w))) = ran (trace w) @ cs
        \<and> halts_at_failure ctx cs
        \<and> (fst (run_steps (s # ss) w) = None \<longrightarrow> cs = concat (cs # css))"
      using Some eq tr len by (simp add: halts_short)
    then show ?thesis by (rule exI)
  next
    case None
    from Cons.IH [of w'] obtain cs' where
      p: "prefix cs' (concat css)"
      and t: "ran (trace (snd (run_steps ss w'))) = ran (trace w') @ cs'"
      and h: "halts_at_failure ctx cs'"
      and f: "fst (run_steps ss w') = None \<longrightarrow> cs' = concat css"
      by (elim exE conjE)
    from None ok h have "halts_at_failure ctx (cs @ cs')"
      by (simp add: halts_append)
    then have "prefix (cs @ cs') (concat (cs # css))
        \<and> ran (trace (snd (run_steps (s # ss) w))) = ran (trace w) @ (cs @ cs')
        \<and> halts_at_failure ctx (cs @ cs')
        \<and> (fst (run_steps (s # ss) w) = None \<longrightarrow> cs @ cs' = concat (cs # css))"
      using None eq tr p t f by simp
    then show ?thesis by (rule exI)
  qed
qed

lemma run_steps_append:
  "run_steps (xs @ ys) w =
     (case run_steps xs w of (None, w') \<Rightarrow> run_steps ys w' | (Some e, w') \<Rightarrow> (Some e, w'))"
  by (induction xs arbitrary: w) (auto split: prod.splits option.splits)

lemma run_steps_nested: "run_steps (run_steps xs # ys) w = run_steps (xs @ ys) w"
  by (simp add: run_steps_append)

lemma run_steps_abort:
  assumes "k < length steps" "run_steps (take k steps) w = (None, w1)" "(steps ! k) w1 = (Some e, w2)"
  shows "run_steps steps w = (Some e, w2)"
proof -
  have "steps = take k steps @ steps ! k # drop (Suc k) steps"
    using assms(1) by (rule id_take_nth_drop)
  then have "run_steps steps w = run_steps (take k steps @ steps ! k # drop (Suc k) steps) w"
    by simp
  also have "\<dots> = (Some e, w2)"
    using assms(2,3) by (simp add: run_steps_append)
  finally show ?thesis .
qed

lemma release_task_flat:
  "release_task ctx w =
     run_steps (kicad_version ctx # schematic_erc ctx SCH_PATH ERC_REPORT_PATH
                  # pcb_drc ctx PCB_PATH DRC_REPORT_PATH # release_steps ctx) w"
proof -
  have e: "env ctx = kicad_version ctx" by (rule ext) (simp add: env_def)
  have c: "check ctx = run_steps [schematic_erc ctx SCH_PATH ERC_REPORT_PATH,
        pcb_drc ctx PCB_PATH DRC_REPORT_PATH]" by (rule ext) (simp add: check_def)
  have r: "release ctx = run_steps (release_steps ctx)" by (rule ext) (simp add: release_def)
  have "release_task ctx w = run_steps ([kicad_version ctx] @
          run_steps [schematic_erc ctx SCH_PATH ERC_REPORT_PATH,
        pcb_drc ctx PCB_PATH DRC_REPORT_PATH] # [run_steps (release_steps ctx)]) w"
    by (simp only: release_task_def e c r append.simps)
  also have "\<dots> = (case kicad_version ctx w of (None, w') \<Rightarrow>
       run_steps ([schematic_erc ctx SCH_PATH ERC_REPORT_PATH,
        pcb_drc ctx PCB_PATH DRC_REPORT_PATH] @ [run_steps (release_steps ctx)]) w'
       | (Some e, w') \<Rightarrow> (Some e, w'))"
    by (simp only: run_steps_append run_steps_single run_steps_nested)
  also have "\<dots> = (case kicad_version ctx w of (None, w') \<Rightarrow>
       run_steps ([schematic_erc ctx SCH_PATH ERC_REPORT_PATH,
        pcb_drc ctx PCB_PATH DRC_REPORT_PATH] @ release_steps ctx) w'
       | (Some e, w') \<Rightarrow> (Some e, w'))"
    by (simp only: run_steps_append [of _ "[run_steps (release_steps ctx)]"]
          run_steps_append [of _ "release_steps ctx"] run_steps_single)
  also have "\<dots> = run_steps (kicad_version ctx # schematic_erc ctx SCH_PATH ERC_REPORT_PATH
                  # pcb_drc ctx PCB_PATH DRC_REPORT_PATH # release_steps ctx) w"
    by (simp only: run_steps.simps append.simps)
  finally show ?thesis .
qed

lemma generic_step:
  "length [cmd] \<le> 1 \<and>
   (\<forall>w. ran (trace (snd (generic_exit_handling ctx b cmd what w))) = ran (trace w) @ [cmd]
      \<and> (fst (generic_exit_handling ctx b cmd what w) = None \<longrightarrow> (\<forall>c \<in> set [cmd]. exited ctx c = 0)))"
  by (simp add: generic_ran generic_fst)

lemma schematic_erc_step:
  "length [schematic_erc_cmd ctx sp rp] \<le> 1 \<and>
   (\<forall>w. ran (trace (snd (schematic_erc ctx sp rp w))) = ran (trace w) @ [schematic_erc_cmd ctx sp rp]
      \<and> (fst (schematic_erc ctx sp rp w) = None
            \<longrightarrow> (\<forall>c \<in> set [schematic_erc_cmd ctx sp rp]. exited ctx c = 0)))"
  by (simp add: schematic_erc_ran schematic_erc_normal)

lemma pcb_drc_step:
  "length [pcb_drc_cmd ctx bp rp] \<le> 1 \<and>
   (\<forall>w. ran (trace (snd (pcb_drc ctx bp rp w))) = ran (trace w) @ [pcb_drc_cmd ctx bp rp]
      \<and> (fst (pcb_drc ctx bp rp w) = None
            \<longrightarrow> (\<forall>c \<in> set [pcb_drc_cmd ctx bp rp]. exited ctx c = 0)))"
  by (simp add: pcb_drc_ran pcb_drc_normal)

lemma svg_to_png_step:
  "length ([] :: string list) \<le> 1 \<and>
   (\<forall>w. ran (trace (snd (svg_to_png ctx sv pn sc dp al w))) = ran (trace w) @ []
      \<and> (fst (svg_to_png ctx sv pn sc dp al w) = None \<longrightarrow> (\<forall>c \<in> set []. exited ctx c = 0)))"
  by (simp add: svg_to_png_ran)

lemmas tool_generic = kicad_version_generic schematic_export_pdf_generic
  schematic_export_svg_generic schematic_export_bom_generic pcb_export_gerbers_generic
  pcb_export_odb_generic pcb_export_pdf_generic pcb_export_drill_generic
  pcb_export_ipcd356_generic pcb_export_pos_generic pcb_render_generic

lemma release_task_steps_cmds:
  "list_all2 (\<lambda>s cs. length cs \<le> 1 \<and> (\<forall>w. ran (trace (snd (s w))) = ran (trace w) @ cs
              \<and> (fst (s w) = None \<longrightarrow> (\<forall>c \<in> set cs. exited ctx c = 0))))
     (kicad_version ctx # schematic_erc ctx SCH_PATH ERC_REPORT_PATH
        # pcb_drc ctx PCB_PATH DRC_REPORT_PATH # release_steps ctx)
     ([kicad_version_cmd ctx] # [schematic_erc_cmd ctx SCH_PATH ERC_REPORT_PATH]
        # [pcb_drc_cmd ctx PCB_PATH DRC_REPORT_PATH]
        # [[release_cmds ctx ! 0], [release_cmds ctx ! 1], [], [], [release_cmds ctx ! 2],
           [release_cmds ctx ! 3], [release_cmds ctx ! 4], [release_cmds ctx ! 5],
           [release_cmds ctx ! 6], [release_cmds ctx ! 7], [release_cmds ctx ! 8]])"
  unfolding release_steps_def release_cmds_def tool_generic
  by (simp add: generic_ran generic_fst schematic_erc_ran schematic_erc_normal pcb_drc_ran
        pcb_drc_normal svg_to_png_ran)

lemma release_task_cmds_concat:
  "concat ([kicad_version_cmd ctx] # [schematic_erc_cmd ctx SCH_PATH ERC_REPORT_PATH]
        # [pcb_drc_cmd ctx PCB_PATH DRC_REPORT_PATH]
        # [[release_cmds ctx ! 0], [release_cmds ctx ! 1], [], [], [release_cmds ctx ! 2],
           [release_cmds ctx ! 3], [release_cmds ctx ! 4], [release_cmds ctx ! 5],
           [release_cmds ctx ! 6], [release_cmds ctx ! 7], [release_cmds ctx ! 8]])
   = release_task_cmds ctx"
  by (simp add: release_task_cmds_def release_cmds_def)

lemma release_task_ran:
  "\<exists>cs. prefix cs (release_task_cmds ctx)
       \<and> ran (trace (snd (release_task ctx w))) = ran (trace w) @ cs
       \<and> halts_at_failure ctx cs
       \<and> (fst (release_task ctx w) = None \<longrightarrow> cs = release_task_cmds ctx)"
  using run_steps_cmds [OF release_task_steps_cmds, of ctx w]
  unfolding release_task_cmds_concat release_task_flat .

lemma check_fst:
  "fst (check ctx w) = None \<longleftrightarrow>
     exited ctx (schematic_erc_cmd ctx SCH_PATH ERC_REPORT_PATH) = 0
     \<and> exited ctx (pcb_drc_cmd ctx PCB_PATH DRC_REPORT_PATH) = 0"
proof -
  obtain r w' where eq: "schematic_erc ctx SCH_PATH ERC_REPORT_PATH w = (r, w')"
    by (cases "schematic_erc ctx SCH_PATH ERC_REPORT_PATH w")
  with schematic_erc_normal [of ctx SCH_PATH ERC_REPORT_PATH w]
  have r: "r = None \<longleftrightarrow> exited ctx (schematic_erc_cmd ctx SCH_PATH ERC_REPORT_PATH) = 0"
    by simp
  obtain r' w'' where eq': "pcb_drc ctx PCB_PATH DRC_REPORT_PATH w' = (r', w'')"
    by (cases "pcb_drc ctx PCB_PATH DRC_REPORT_PATH w'")
  with pcb_drc_normal [of ctx PCB_PATH DRC_REPORT_PATH w']
  have r': "r' = None \<longleftrightarrow> exited ctx (pcb_drc_cmd ctx PCB_PATH DRC_REPORT_PATH) = 0"
    by simp
  show ?thesis
    using eq eq' r r' by (cases r; cases r') (simp_all add: check_def)
qed

lemma run_steps_files:
  "(\<And>s w. s \<in> set steps \<Longrightarrow> files (snd (s w)) = files w) \<Longrightarrow>
   files (snd (run_steps steps w)) = files w"
proof (induction steps arbitrary: w)
  case Nil
  then show ?case by simp
next
  case (Cons s ss)
  obtain r w' where eq: "s w = (r, w')" by (cases "s w")
  have 1: "files w' = files w"
    using Cons.prems [of s w] eq by simp
  show ?case
  proof (cases r)
    case None
    with eq 1 Cons.IH [of w'] Cons.prems show ?thesis by simp
  next
    case (Some e)
    with eq 1 show ?thesis by simp
  qed
qed

lemma pre_tasks_flat:
  "run_steps [env ctx, check ctx] w =
     run_steps [kicad_version ctx, schematic_erc ctx SCH_PATH ERC_REPORT_PATH,
                pcb_drc ctx PCB_PATH DRC_REPORT_PATH] w"
  by (simp add: env_def check_def split: prod.splits option.splits)

lemma pre_tasks_files: "files (snd (run_steps [env ctx, check ctx] w)) = files w"
  unfolding pre_tasks_flat
  by (rule run_steps_files)
    (auto simp: kicad_version_generic generic_files schematic_erc_files pcb_drc_files)

lemma pre_tasks_ran:
  "\<exists>cs. prefix cs [kicad_version_cmd ctx, schematic_erc_cmd ctx SCH_PATH ERC_REPORT_PATH,
                    pcb_drc_cmd ctx PCB_PATH DRC_REPORT_PATH]
      \<and> ran (trace (snd (run_steps [env ctx, check ctx] w))) = ran (trace w) @ cs"
proof -
  have "list_all2 (\<lambda>s cs. length cs \<le> 1 \<and> (\<forall>w. ran (trace (snd (s w))) = ran (trace w) @ cs
              \<and> (fst (s w) = None \<longrightarrow> (\<forall>c \<in> set cs. exited ctx c = 0))))
     [kicad_version ctx, schematic_erc ctx SCH_PATH ERC_REPORT_PATH,
        pcb_drc ctx PCB_PATH DRC_REPORT_PATH]
     [[kicad_version_cmd ctx], [schematic_erc_cmd ctx SCH_PATH ERC_REPORT_PATH],
        [pcb_drc_cmd ctx PCB_PATH DRC_REPORT_PATH]]"
    unfolding tool_generic
    by (simp add: generic_ran generic_fst schematic_erc_ran schematic_erc_normal pcb_drc_ran
        pcb_drc_normal)
  from run_steps_cmds [OF this, of w] show ?thesis
    unfolding pre_tasks_flat by auto
qed

lemma release_task_check_fails:
  assumes "exited ctx (schematic_erc_cmd ctx SCH_PATH ERC_REPORT_PATH) \<noteq> 0
           \<or> exited ctx (pcb_drc_cmd ctx PCB_PATH DRC_REPORT_PATH) \<noteq> 0"
  shows "fst (release_task ctx w) \<noteq> None \<and> release_task ctx w = run_steps [env ctx, check ctx] w"
proof -
  obtain r w1 where e: "env ctx w = (r, w1)" by (cases "env ctx w")
  show ?thesis
  proof (cases r)
    case (Some x)
    with e show ?thesis by (simp add: release_task_def)
  next
    case None
    obtain r' w2 where c: "check ctx w1 = (r', w2)" by (cases "check ctx w1")
    with check_fst [of ctx w1] assms have "r' \<noteq> None" by auto
    then obtain x where "r' = Some x" by blast
    with None e c show ?thesis by (simp add: release_task_def)
  qed
qed

text \<open>
  C2. The commands that the task \<open>release\<close> runs are a prefix of the fixed sequence
  version query, ERC, DRC, exports; every command before the last one run exited with 0,
  and a normal return means the whole sequence ran. When ERC or DRC exits with a non-zero
  status the task fails with what \<open>env\<close> and \<open>check\<close> alone did: only commands among the
  version query, ERC and DRC ran, and the file system is unchanged. In the body of
  \<open>release\<close>, the exception of any step is the result of the task, in the world that the
  step left: no later step runs.
\<close>

theorem release_task_order_and_abort:
  "(\<exists>cs. prefix cs (release_task_cmds ctx)
        \<and> ran (trace (snd (release_task ctx w))) = ran (trace w) @ cs
        \<and> halts_at_failure ctx cs
        \<and> (fst (release_task ctx w) = None \<longrightarrow> cs = release_task_cmds ctx))
   \<and> (exited ctx (schematic_erc_cmd ctx SCH_PATH ERC_REPORT_PATH) \<noteq> 0
        \<or> exited ctx (pcb_drc_cmd ctx PCB_PATH DRC_REPORT_PATH) \<noteq> 0 \<longrightarrow>
          fst (release_task ctx w) \<noteq> None
          \<and> release_task ctx w = run_steps [env ctx, check ctx] w
          \<and> files (snd (release_task ctx w)) = files w
          \<and> (\<exists>cs. prefix cs [kicad_version_cmd ctx,
                               schematic_erc_cmd ctx SCH_PATH ERC_REPORT_PATH,
                               pcb_drc_cmd ctx PCB_PATH DRC_REPORT_PATH]
                 \<and> ran (trace (snd (release_task ctx w))) = ran (trace w) @ cs))
   \<and> (\<forall>k w1 e w2.
         k < length (release_steps ctx)
         \<and> run_steps (take k (release_steps ctx)) w = (None, w1)
         \<and> (release_steps ctx ! k) w1 = (Some e, w2)
         \<longrightarrow> release ctx w = (Some e, w2))"
proof -
  have b: "fst (release_task ctx w) \<noteq> None
          \<and> release_task ctx w = run_steps [env ctx, check ctx] w
          \<and> files (snd (release_task ctx w)) = files w
          \<and> (\<exists>cs. prefix cs [kicad_version_cmd ctx,
                               schematic_erc_cmd ctx SCH_PATH ERC_REPORT_PATH,
                               pcb_drc_cmd ctx PCB_PATH DRC_REPORT_PATH]
                 \<and> ran (trace (snd (release_task ctx w))) = ran (trace w) @ cs)"
    if "exited ctx (schematic_erc_cmd ctx SCH_PATH ERC_REPORT_PATH) \<noteq> 0
        \<or> exited ctx (pcb_drc_cmd ctx PCB_PATH DRC_REPORT_PATH) \<noteq> 0"
  proof -
    from release_task_check_fails [OF that, of w]
    have 1: "fst (release_task ctx w) \<noteq> None"
      by (rule conjunct1)
    from release_task_check_fails [OF that, of w]
    have 2: "release_task ctx w = run_steps [env ctx, check ctx] w"
      by (rule conjunct2)
    from 1 2 pre_tasks_files [of ctx w] pre_tasks_ran [of ctx w]
    show ?thesis by (simp only: simp_thms)
  qed
  have c: "release ctx w = (Some e, w2)"
    if "k < length (release_steps ctx)" "run_steps (take k (release_steps ctx)) w = (None, w1)"
      "(release_steps ctx ! k) w1 = (Some e, w2)" for k w1 e w2
    unfolding release_def using that by (rule run_steps_abort)
  from release_task_ran [of ctx w] b c show ?thesis by blast
qed

lemmas path_eval = SCH_PATH_def PCB_PATH_def OUTPUT_PATH_def REPORT_OUTPUT_PATH_def
  ERC_REPORT_PATH_def DRC_REPORT_PATH_def PCA_OUTPUT_PATH_def SCH_OUTPUT_PATH_def
  BOM_OUTPUT_PATH_def SCH_PDF_PATH_def SCH_SVG_PATH_def SCH_PNG_PATH_def BOM_PATH_def
  PCB_OUTPUT_PATH_def GERBERS_PATH_def DRILL_FILES_PATH_def IPCD356_PATH_def POSITION_PATH_def
  PCB_PDF_PATH_def PROJECT_NAME_def PROJECT_VERSION_MAJOR_def PCB_PART_NUMBER_def PCB_REV_def
  SCH_PART_NUMBER_def SCH_REV_def PCA_PART_NUMBER_def PCA_REV_def Path_def pjoin_def
  str_path_def

lemma erc_cmd_text:
  "schematic_erc_cmd (sample_ctx ex) SCH_PATH ERC_REPORT_PATH =
     ''kicad-cli sch erc --output=output/RPi_Pico_SAO_Host_v2/Reports/RPi_Pico_SAO_Host_v2_ERC_report.txt --severity-warning --severity-error --exit-code-violations RPi_Pico_SAO_Host.kicad_sch''"
  by (simp add: schematic_erc_cmd_def sample_ctx_def path_eval)

lemma drc_cmd_text:
  "pcb_drc_cmd (sample_ctx ex) PCB_PATH DRC_REPORT_PATH =
     ''kicad-cli pcb drc --output=output/RPi_Pico_SAO_Host_v2/Reports/RPi_Pico_SAO_Host_v2_DRC_report.txt --schematic-parity --severity-warning --severity-error --exit-code-violations RPi_Pico_SAO_Host.kicad_pcb''"
  by (simp add: pcb_drc_cmd_def sample_ctx_def path_eval)

lemma version_cmd_text:
  "kicad_version_cmd (sample_ctx ex) = ''kicad-cli version --format=about''"
  by (simp add: kicad_version_cmd_def sample_ctx_def)

lemma erc_report_text:
  "str_path ERC_REPORT_PATH = ''output/RPi_Pico_SAO_Host_v2/Reports/RPi_Pico_SAO_Host_v2_ERC_report.txt''"
  "str_path DRC_REPORT_PATH = ''output/RPi_Pico_SAO_Host_v2/Reports/RPi_Pico_SAO_Host_v2_DRC_report.txt''"
  by (simp_all add: path_eval)

lemma exited_sample: "exited (sample_ctx ex) = ex"
  by (simp add: sample_ctx_def)

theorem erc_drc_violations_reraise_witness:
  "exited (sample_ctx (always 5)) (schematic_erc_cmd (sample_ctx (always 5)) SCH_PATH ERC_REPORT_PATH) = 5
   \<and> schematic_erc (sample_ctx (always 5)) SCH_PATH ERC_REPORT_PATH sample_world =
       (Some (UnexpectedExit 5),
        \<lparr>trace =
           [Printed ''Running ERC on the schematic...'',
            Ran ''kicad-cli sch erc --output=output/RPi_Pico_SAO_Host_v2/Reports/RPi_Pico_SAO_Host_v2_ERC_report.txt --severity-warning --severity-error --exit-code-violations RPi_Pico_SAO_Host.kicad_sch'',
            Printed (newline # ''ERROR: ERC violations found in the schematic.''),
            Printed ''Check output/RPi_Pico_SAO_Host_v2/Reports/RPi_Pico_SAO_Host_v2_ERC_report.txt for details.''],
         files = sample_files\<rparr>)
   \<and> pcb_drc (sample_ctx (always 5)) PCB_PATH DRC_REPORT_PATH sample_world =
       (Some (UnexpectedExit 5),
        \<lparr>trace =
           [Printed ''Running DRC on the PCB...'',
            Ran ''kicad-cli pcb drc --output=output/RPi_Pico_SAO_Host_v2/Reports/RPi_Pico_SAO_Host_v2_DRC_report.txt --schematic-parity --severity-warning --severity-error --exit-code-violations RPi_Pico_SAO_Host.kicad_pcb'',
            Printed (newline # ''ERROR: DRC violations found in the PCB.''),
            Printed ''Check output/RPi_Pico_SAO_Host_v2/Reports/RPi_Pico_SAO_Host_v2_DRC_report.txt for details.''],
         files = sample_files\<rparr>)
   \<and> fst (schematic_erc (sample_ctx (always 0)) SCH_PATH ERC_REPORT_PATH sample_world) = None
   \<and> fst (schematic_erc (sample_ctx (always 2)) SCH_PATH ERC_REPORT_PATH sample_world) \<noteq> None"
  using erc_drc_violations_reraise [where ctx = "sample_ctx (always 5)" and sp = SCH_PATH
      and rp = ERC_REPORT_PATH and bp = PCB_PATH and rp' = DRC_REPORT_PATH and w = sample_world]
    erc_drc_violations_reraise [where ctx = "sample_ctx (always 0)" and sp = SCH_PATH
      and rp = ERC_REPORT_PATH and bp = PCB_PATH and rp' = DRC_REPORT_PATH and w = sample_world]
    erc_drc_violations_reraise [where ctx = "sample_ctx (always 2)" and sp = SCH_PATH
      and rp = ERC_REPORT_PATH and bp = PCB_PATH and rp' = DRC_REPORT_PATH and w = sample_world]
  by (simp add: erc_cmd_text drc_cmd_text erc_report_text exited_sample always_def
      sample_world_def)

lemma drill_cmd_text:
  "pcb_export_drill_cmd (sample_ctx ex) PCB_PATH DRILL_FILES_PATH =
     ''kicad-cli pcb export drill --output=output/RPi_Pico_SAO_Host_v2/RPi_Pico_SAO_Host_v2_PCB_100092_Rev_A/Drill_Files --drill-origin=plot --generate-map RPi_Pico_SAO_Host.kicad_pcb''"
  by (simp add: pcb_export_drill_cmd_def sample_ctx_def path_eval)

lemma str_int_digit: "str_int 1 = ''1''" "str_int 3 = ''3''" "str_int 5 = ''5''"
  by (simp_all add: str_int_def str_nat.simps)

theorem other_tools_uniform_witness:
  "exited (sample_ctx (always 5))
      (schematic_erc_cmd (sample_ctx (always 5)) SCH_PATH ERC_REPORT_PATH) = 5
   \<and> schematic_erc (sample_ctx (always 5)) SCH_PATH ERC_REPORT_PATH sample_world \<noteq>
       generic_exit_handling (sample_ctx (always 5)) [''Running ERC on the schematic...'']
         (schematic_erc_cmd (sample_ctx (always 5)) SCH_PATH ERC_REPORT_PATH) ''ERC'' sample_world
   \<and> exited (sample_ctx (always 3))
        (schematic_erc_cmd (sample_ctx (always 3)) SCH_PATH ERC_REPORT_PATH) \<noteq> 5
   \<and> schematic_erc (sample_ctx (always 3)) SCH_PATH ERC_REPORT_PATH sample_world =
       (Some (UnexpectedExit 3),
        \<lparr>trace =
           [Printed ''Running ERC on the schematic...'',
            Ran ''kicad-cli sch erc --output=output/RPi_Pico_SAO_Host_v2/Reports/RPi_Pico_SAO_Host_v2_ERC_report.txt --severity-warning --severity-error --exit-code-violations RPi_Pico_SAO_Host.kicad_sch'',
            Printed (newline # ''ERROR: ERC failed with an unexpected exit code (3)'')],
         files = sample_files\<rparr>)
   \<and> pcb_export_drill (sample_ctx (always 5)) PCB_PATH DRILL_FILES_PATH sample_world =
       (Some (UnexpectedExit 5),
        \<lparr>trace =
           [Printed ''Exporting drill file from the PCB...'',
            Ran ''kicad-cli pcb export drill --output=output/RPi_Pico_SAO_Host_v2/RPi_Pico_SAO_Host_v2_PCB_100092_Rev_A/Drill_Files --drill-origin=plot --generate-map RPi_Pico_SAO_Host.kicad_pcb'',
            Printed (newline # ''ERROR: Drill file export from the PCB failed with an unexpected exit code (5)'')],
         files = sample_files\<rparr>)
   \<and> kicad_version (sample_ctx (always 0)) sample_world =
       (None, \<lparr>trace = [Ran ''kicad-cli version --format=about''], files = sample_files\<rparr>)"
proof -
  have 5: "exited (sample_ctx (always 5))
      (schematic_erc_cmd (sample_ctx (always 5)) SCH_PATH ERC_REPORT_PATH) = 5"
    and 3: "exited (sample_ctx (always 3))
        (schematic_erc_cmd (sample_ctx (always 3)) SCH_PATH ERC_REPORT_PATH) \<noteq> 5"
    by (simp_all add: exited_sample always_def)
  from 5 other_tools_uniform [of "sample_ctx (always 5)" sample_world]
  have a: "schematic_erc (sample_ctx (always 5)) SCH_PATH ERC_REPORT_PATH sample_world \<noteq>
       generic_exit_handling (sample_ctx (always 5)) [''Running ERC on the schematic...'']
         (schematic_erc_cmd (sample_ctx (always 5)) SCH_PATH ERC_REPORT_PATH) ''ERC'' sample_world"
    by simp
  from 3 other_tools_uniform [of "sample_ctx (always 3)" sample_world]
  have b: "schematic_erc (sample_ctx (always 3)) SCH_PATH ERC_REPORT_PATH sample_world =
       generic_exit_handling (sample_ctx (always 3)) [''Running ERC on the schematic...'']
         (schematic_erc_cmd (sample_ctx (always 3)) SCH_PATH ERC_REPORT_PATH) ''ERC'' sample_world"
    by simp
  from other_tools_uniform [of "sample_ctx (always 5)" sample_world]
  have c: "pcb_export_drill (sample_ctx (always 5)) PCB_PATH DRILL_FILES_PATH sample_world =
       generic_exit_handling (sample_ctx (always 5)) [''Exporting drill file from the PCB...'']
         (pcb_export_drill_cmd (sample_ctx (always 5)) PCB_PATH DRILL_FILES_PATH)
         ''Drill file export from the PCB'' sample_world"
    by simp
  from other_tools_uniform [of "sample_ctx (always 0)" sample_world]
  have d: "kicad_version (sample_ctx (always 0)) sample_world =
       generic_exit_handling (sample_ctx (always 0)) [] (kicad_version_cmd (sample_ctx (always 0)))
         ''KiCad version check'' sample_world"
    by simp
  have b': "schematic_erc (sample_ctx (always 3)) SCH_PATH ERC_REPORT_PATH sample_world =
       (Some (UnexpectedExit 3),
        \<lparr>trace =
           [Printed ''Running ERC on the schematic...'',
            Ran ''kicad-cli sch erc --output=output/RPi_Pico_SAO_Host_v2/Reports/RPi_Pico_SAO_Host_v2_ERC_report.txt --severity-warning --severity-error --exit-code-violations RPi_Pico_SAO_Host.kicad_sch'',
            Printed (newline # ''ERROR: ERC failed with an unexpected exit code (3)'')],
         files = sample_files\<rparr>)"
    unfolding b
    by (simp add: generic_exit_handling_def exited_sample always_def erc_cmd_text str_int_digit
        sample_world_def)
  have c': "pcb_export_drill (sample_ctx (always 5)) PCB_PATH DRILL_FILES_PATH sample_world =
       (Some (UnexpectedExit 5),
        \<lparr>trace =
           [Printed ''Exporting drill file from the PCB...'',
            Ran ''kicad-cli pcb export drill --output=output/RPi_Pico_SAO_Host_v2/RPi_Pico_SAO_Host_v2_PCB_100092_Rev_A/Drill_Files --drill-origin=plot --generate-map RPi_Pico_SAO_Host.kicad_pcb'',
            Printed (newline # ''ERROR: Drill file export from the PCB failed with an unexpected exit code (5)'')],
         files = sample_files\<rparr>)"
    unfolding c
    by (simp add: generic_exit_handling_def exited_sample always_def drill_cmd_text str_int_digit
        sample_world_def)
  have d': "kicad_version (sample_ctx (always 0)) sample_world =
       (None, \<lparr>trace = [Ran ''kicad-cli version --format=about''], files = sample_files\<rparr>)"
    unfolding d
    by (simp add: generic_exit_handling_def exited_sample always_def version_cmd_text
        sample_world_def)
  from 5 a 3 b' c' d' show ?thesis
    by (intro conjI)
qed

theorem svg_to_png_scale_and_dpi_witness:
  "svg_to_png (sample_ctx (always 0)) [''in.svg''] [''out'', ''x.png'']
       (Some (Finite 500)) (Some 300) False sample_world =
     (Some (ValueError ''Cannot specify both scale and dpi''),
      \<lparr>trace = [Printed ''Generating out/x.png from in.svg...''], files = sample_files\<rparr>)"
  using svg_to_png_scale_and_dpi [of "sample_ctx (always 0)" "[''in.svg'']" "[''out'', ''x.png'']"
      "Finite 500" 300 False sample_world]
  by (simp add: sample_world_def str_path_def)

lemma svg_cmd_ne_pdf:
  "schematic_export_pdf_cmd (sample_ctx ex) SCH_PATH SCH_PDF_PATH
     \<noteq> schematic_export_svg_cmd (sample_ctx ex') SCH_PATH SCH_SVG_PATH"
  by (simp add: schematic_export_pdf_cmd_def schematic_export_svg_cmd_def sample_ctx_def)

theorem release_task_order_and_abort_witness:
  "exited drc_fails_ctx (pcb_drc_cmd drc_fails_ctx PCB_PATH DRC_REPORT_PATH) \<noteq> 0
   \<and> fst (release_task drc_fails_ctx sample_world) = Some (UnexpectedExit 5)
   \<and> ran (trace (snd (release_task drc_fails_ctx sample_world))) =
        [''kicad-cli version --format=about'',
         ''kicad-cli sch erc --output=output/RPi_Pico_SAO_Host_v2/Reports/RPi_Pico_SAO_Host_v2_ERC_report.txt --severity-warning --severity-error --exit-code-violations RPi_Pico_SAO_Host.kicad_sch'',
         ''kicad-cli pcb drc --output=output/RPi_Pico_SAO_Host_v2/Reports/RPi_Pico_SAO_Host_v2_DRC_report.txt --schematic-parity --severity-warning --severity-error --exit-code-violations RPi_Pico_SAO_Host.kicad_pcb'']
   \<and> files (snd (release_task drc_fails_ctx sample_world)) = sample_files
   \<and> 1 < length (release_steps svg_fails_ctx)
   \<and> run_steps (take 1 (release_steps svg_fails_ctx)) sample_world =
        (None, sample_world\<lparr>trace :=
           [Printed ''Exporting Schematic PDF...'',
            Ran (schematic_export_pdf_cmd svg_fails_ctx SCH_PATH SCH_PDF_PATH)]\<rparr>)
   \<and> release svg_fails_ctx sample_world =
        (Some (UnexpectedExit 1),
         sample_world\<lparr>trace :=
           [Printed ''Exporting Schematic PDF...'',
            Ran (schematic_export_pdf_cmd svg_fails_ctx SCH_PATH SCH_PDF_PATH),
            Printed ''Exporting Schematic SVG...'',
            Ran (schematic_export_svg_cmd svg_fails_ctx SCH_PATH SCH_SVG_PATH),
            Printed (newline # ''ERROR: SVG export from the schematic failed with an unexpected exit code (1)'')]\<rparr>)"
proof -
  let ?w1 = "sample_world\<lparr>trace :=
           [Printed ''Exporting Schematic PDF...'',
            Ran (schematic_export_pdf_cmd svg_fails_ctx SCH_PATH SCH_PDF_PATH)]\<rparr>"
  let ?w2 = "sample_world\<lparr>trace :=
           [Printed ''Exporting Schematic PDF...'',
            Ran (schematic_export_pdf_cmd svg_fails_ctx SCH_PATH SCH_PDF_PATH),
            Printed ''Exporting Schematic SVG...'',
            Ran (schematic_export_svg_cmd svg_fails_ctx SCH_PATH SCH_SVG_PATH),
            Printed (newline # ''ERROR: SVG export from the schematic failed with an unexpected exit code (1)'')]\<rparr>"
  have d: "exited drc_fails_ctx (pcb_drc_cmd drc_fails_ctx PCB_PATH DRC_REPORT_PATH) = 5"
    and e: "exited drc_fails_ctx (schematic_erc_cmd drc_fails_ctx SCH_PATH ERC_REPORT_PATH) = 0"
    and v: "exited drc_fails_ctx (kicad_version_cmd drc_fails_ctx) = 0"
    by (simp_all add: drc_fails_ctx_def exited_sample failing_on_def drc_cmd_text erc_cmd_text
        version_cmd_text)
  have run: "release_task drc_fails_ctx sample_world =
      (Some (UnexpectedExit 5),
       sample_world\<lparr>trace :=
         [Ran (kicad_version_cmd drc_fails_ctx),
          Printed ''Running ERC on the schematic...'',
          Ran (schematic_erc_cmd drc_fails_ctx SCH_PATH ERC_REPORT_PATH),
          Printed ''Running DRC on the PCB...'',
          Ran (pcb_drc_cmd drc_fails_ctx PCB_PATH DRC_REPORT_PATH),
          Printed (newline # ''ERROR: DRC violations found in the PCB.''),
          Printed (''Check '' @ str_path DRC_REPORT_PATH @ '' for details.'')]\<rparr>)"
    using d e v
    by (simp add: release_task_def env_def check_def kicad_version_def schematic_erc_def
        pcb_drc_def run_def print_def emit_def sample_world_def)
  have p: "exited svg_fails_ctx (schematic_export_pdf_cmd svg_fails_ctx SCH_PATH SCH_PDF_PATH) = 0"
    and s: "exited svg_fails_ctx (schematic_export_svg_cmd svg_fails_ctx SCH_PATH SCH_SVG_PATH) = 1"
    using svg_cmd_ne_pdf
    by (simp_all add: svg_fails_ctx_def exited_sample failing_on_def
        schematic_export_svg_cmd_def sample_ctx_def)
  have k: "1 < length (release_steps svg_fails_ctx)"
    by (simp add: release_steps_def)
  have t: "run_steps (take 1 (release_steps svg_fails_ctx)) sample_world = (None, ?w1)"
    using p
    by (simp add: release_steps_def schematic_export_pdf_def run_def print_def emit_def
        sample_world_def)
  have n: "(release_steps svg_fails_ctx ! 1) ?w1 = (Some (UnexpectedExit 1), ?w2)"
    using s
    by (simp add: release_steps_def schematic_export_svg_def run_def print_def emit_def
        sample_world_def str_int_digit)
  from k t n release_task_order_and_abort [of svg_fails_ctx sample_world]
  have r: "release svg_fails_ctx sample_world = (Some (UnexpectedExit 1), ?w2)"
    by blast
  from d have d': "exited drc_fails_ctx (schematic_erc_cmd drc_fails_ctx SCH_PATH ERC_REPORT_PATH) \<noteq> 0
     \<or> exited drc_fails_ctx (pcb_drc_cmd drc_fails_ctx PCB_PATH DRC_REPORT_PATH) \<noteq> 0"
    by simp
  from release_task_order_and_abort [of drc_fails_ctx sample_world, THEN conjunct2, THEN conjunct1,
      THEN mp, OF d']
  have "files (snd (release_task drc_fails_ctx sample_world)) = files sample_world"
    by (elim conjE)
  then have f: "files (snd (release_task drc_fails_ctx sample_world)) = sample_files"
    by (simp add: sample_world_def)
  have c: "ran (trace (snd (release_task drc_fails_ctx sample_world))) =
        [''kicad-cli version --format=about'',
         ''kicad-cli sch erc --output=output/RPi_Pico_SAO_Host_v2/Reports/RPi_Pico_SAO_Host_v2_ERC_report.txt --severity-warning --severity-error --exit-code-violations RPi_Pico_SAO_Host.kicad_sch'',
         ''kicad-cli pcb drc --output=output/RPi_Pico_SAO_Host_v2/Reports/RPi_Pico_SAO_Host_v2_DRC_report.txt --schematic-parity --severity-warning --severity-error --exit-code-violations RPi_Pico_SAO_Host.kicad_pcb'']"
  proof -
    have "kicad_version_cmd drc_fails_ctx = ''kicad-cli version --format=about''"
      and "schematic_erc_cmd drc_fails_ctx SCH_PATH ERC_REPORT_PATH =
         ''kicad-cli sch erc --output=output/RPi_Pico_SAO_Host_v2/Reports/RPi_Pico_SAO_Host_v2_ERC_report.txt --severity-warning --severity-error --exit-code-violations RPi_Pico_SAO_Host.kicad_sch''"
      and "pcb_drc_cmd drc_fails_ctx PCB_PATH DRC_REPORT_PATH =
         ''kicad-cli pcb drc --output=output/RPi_Pico_SAO_Host_v2/Reports/RPi_Pico_SAO_Host_v2_DRC_report.txt --schematic-parity --severity-warning --severity-error --exit-code-violations RPi_Pico_SAO_Host.kicad_pcb''"
      by (simp_all only: drc_fails_ctx_def drc_cmd_text erc_cmd_text version_cmd_text)
    then show ?thesis
      unfolding run by (simp add: sample_world_def)
  qed
  from d have d'': "exited drc_fails_ctx (pcb_drc_cmd drc_fails_ctx PCB_PATH DRC_REPORT_PATH) \<noteq> 0"
    by simp
  from d'' c f k t r show ?thesis
    by (simp only: run fst_conv simp_thms)
qed

subsection \<open>The scaling step in floating point\<close>

lemma pow2_powi: "pow2 e = power_int 2 e"
  by (simp add: pow2_def power_int_def inverse_eq_divide power_divide)

lemma pow2_pos: "0 < pow2 e"
  by (simp add: pow2_powi)

lemma pow2_add: "pow2 (a + b) = pow2 a * pow2 b"
  by (simp add: pow2_powi power_int_add)

lemma pow2_mono: "a \<le> b \<Longrightarrow> pow2 a \<le> pow2 b"
  by (simp add: pow2_powi power_int_increasing)

lemma pow2_strict_mono: "a < b \<Longrightarrow> pow2 a < pow2 b"
  by (simp add: pow2_powi power_int_strict_increasing)

lemma pow2_nat: "0 \<le> e \<Longrightarrow> pow2 e = 2 ^ nat e"
  by (simp add: pow2_def)

lemma of_int_bitlen:
  assumes "0 < (p::int)"
  shows "pow2 (bitlen p - 1) \<le> of_int p" "of_int p < pow2 (bitlen p)"
proof -
  from bitlen_bounds [OF assms]
  have 1: "2 ^ nat (bitlen p - 1) \<le> p" and 2: "p < 2 ^ nat (bitlen p)"
    by simp_all
  have ge: "1 \<le> bitlen p" using assms by (simp add: bitlen_alt_def)
  from 1 have "(of_int (2 ^ nat (bitlen p - 1)) :: rat) \<le> of_int p"
    by (simp only: of_int_le_iff)
  with ge show "pow2 (bitlen p - 1) \<le> of_int p"
    by (simp add: pow2_nat)
  from 2 have "(of_int p :: rat) < of_int (2 ^ nat (bitlen p))"
    by (simp only: of_int_less_iff)
  with ge show "of_int p < pow2 (bitlen p)"
    by (simp add: pow2_nat)
qed

lemma ilog2_bounds:
  assumes "0 < x"
  shows "pow2 (ilog2 x) \<le> x \<and> x < pow2 (ilog2 x + 1)"
proof -
  obtain p q where pq: "quotient_of x = (p, q)" by (cases "quotient_of x")
  then have q: "0 < q" by (rule quotient_of_denom_pos)
  from pq have x: "x = of_int p / of_int q" by (rule quotient_of_div)
  with assms q have p: "0 < p" by (simp add: zero_less_divide_iff)
  let ?a = "bitlen p" and ?b = "bitlen q"
  note P = of_int_bitlen [OF p] and Q = of_int_bitlen [OF q]
  have qpos: "0 < (of_int q :: rat)" using q by simp
  have ppos: "0 < (of_int p :: rat)" using p by simp
  have "x < pow2 ?a / pow2 (?b - 1)"
    unfolding x using P(2) Q(1) ppos pow2_pos [of "?b - 1"]
    by (intro frac_less) simp_all
  also have "\<dots> = pow2 (?a - ?b + 1)"
    using pow2_add [of "?a - ?b + 1" "?b - 1"] pow2_pos [of "?b - 1"]
    by (simp add: field_simps)
  finally have up: "x < pow2 (?a - ?b + 1)" .
  have "pow2 (?a - 1) / pow2 ?b < x"
    unfolding x using P(1) Q(2) qpos pow2_pos [of "?a - 1"]
    by (intro frac_less2) simp_all
  moreover have "pow2 (?a - 1) / pow2 ?b = pow2 (?a - ?b - 1)"
    using pow2_add [of "?a - ?b - 1" "?b"] pow2_pos [of "?b"]
    by (simp add: field_simps)
  ultimately have lo: "pow2 (?a - ?b - 1) < x" by simp
  show ?thesis
  proof (cases "pow2 (?a - ?b) \<le> x")
    case True
    with up pq show ?thesis by (simp add: ilog2_def)
  next
    case False
    with lo pq show ?thesis by (simp add: ilog2_def)
  qed
qed

lemma round_half_even_err: "\<bar>of_int (round_half_even y) - y\<bar> \<le> 1 / 2"
proof -
  have "of_int \<lfloor>y\<rfloor> \<le> y" "y < of_int \<lfloor>y\<rfloor> + 1"
    by linarith+
  then show ?thesis
    by (auto simp: round_half_even_def Let_def)
qed


lemma rnd_normal:
  assumes lo: "pow2 (- 1022) \<le> \<bar>x\<bar>" and hi: "\<bar>x\<bar> \<le> pow2 1000"
  shows "\<exists>y. rnd x = Finite y \<and> \<bar>y - x\<bar> * 2 ^ 53 \<le> \<bar>x\<bar>"
proof -
  let ?e = "ilog2 \<bar>x\<bar>"
  let ?q = "pow2 (?e - 52)"
  let ?y = "of_int (round_half_even (x / ?q)) * ?q"
  from lo pow2_pos [of "- 1022"] have pos: "0 < \<bar>x\<bar>" by linarith
  then have x0: "x \<noteq> 0" by simp
  from ilog2_bounds [OF pos] have b1: "pow2 ?e \<le> \<bar>x\<bar>" and b2: "\<bar>x\<bar> < pow2 (?e + 1)"
    by simp_all
  have e: "- 1022 \<le> ?e"
  proof (rule ccontr)
    assume "\<not> - 1022 \<le> ?e"
    then have "?e + 1 \<le> - 1022" by simp
    then have "pow2 (?e + 1) \<le> pow2 (- 1022)" by (rule pow2_mono)
    with lo b2 show False by linarith
  qed
  have q: "0 < ?q" by (rule pow2_pos)
  have "pow2 ?e = pow2 (?e - 52) * pow2 52"
    using pow2_add [of "?e - 52" 52] by simp
  then have qe: "?q * 2 ^ 52 = pow2 ?e"
    by (simp add: pow2_def)
  have "\<bar>?y - x\<bar> = \<bar>of_int (round_half_even (x / ?q)) - x / ?q\<bar> * ?q"
  proof -
    have "?y - x = (of_int (round_half_even (x / ?q)) - x / ?q) * ?q"
      using q by (simp add: field_simps)
    then show ?thesis
      using q by (simp add: abs_mult)
  qed
  also have "\<dots> \<le> (1 / 2) * ?q"
    using round_half_even_err [of "x / ?q"] q by (intro mult_right_mono) simp_all
  finally have err: "\<bar>?y - x\<bar> \<le> ?q / 2" by simp
  then have "\<bar>?y - x\<bar> * 2 ^ 53 \<le> (?q / 2) * 2 ^ 53"
    by (intro mult_right_mono) simp_all
  also have "\<dots> = ?q * 2 ^ 52" by simp
  also have "\<dots> \<le> \<bar>x\<bar>" using qe b1 by simp
  finally have bound: "\<bar>?y - x\<bar> * 2 ^ 53 \<le> \<bar>x\<bar>" .
  have "\<bar>?y - x\<bar> * 1 \<le> \<bar>?y - x\<bar> * 2 ^ 53"
    by (intro mult_left_mono) simp_all
  with bound have "\<bar>?y - x\<bar> \<le> \<bar>x\<bar>" by linarith
  then have "\<bar>?y\<bar> \<le> 2 * \<bar>x\<bar>" by linarith
  also have "\<dots> \<le> 2 * pow2 1000" using hi by simp
  also have "\<dots> < pow2 1024" by (simp add: pow2_def)
  finally have fin: "\<not> pow2 1024 \<le> \<bar>?y\<bar>" by simp
  have "rnd x = Finite ?y"
    using x0 e fin by (simp add: rnd_def Let_def max_def)
  with bound show ?thesis by blast
qed

lemma rnd_positive:
  assumes "pow2 (- 1022) \<le> x" and "x \<le> pow2 1000"
  shows "\<exists>y. rnd x = Finite y \<and> \<bar>y - x\<bar> * 2 ^ 53 \<le> x \<and> x / 2 \<le> y \<and> y \<le> 2 * x"
proof -
  from assms(1) pow2_pos [of "- 1022"] have pos: "0 < x" by linarith
  with assms rnd_normal [of x] obtain y where y: "rnd x = Finite y"
    and b: "\<bar>y - x\<bar> * 2 ^ 53 \<le> x"
    by auto
  have "\<bar>y - x\<bar> * 2 \<le> \<bar>y - x\<bar> * 2 ^ 53"
    by (intro mult_left_mono) simp_all
  with b have "\<bar>y - x\<bar> * 2 \<le> x" by linarith
  then have h: "\<bar>y - x\<bar> * 2 \<le> x" .
  have g1: "x - y \<le> \<bar>y - x\<bar>" and g2: "y - x \<le> \<bar>y - x\<bar>"
    by simp_all
  from h pos g1 have 1: "x / 2 \<le> y" by (simp add: field_simps)
  from h pos g2 have 2: "y \<le> 2 * x" by (simp add: field_simps)
  from y b 1 2 show ?thesis by blast
qed

lemma pow2_quot: "pow2 a / pow2 b = pow2 (a - b)"
  using pow2_add [of "a - b" b] pow2_pos [of b] by (simp add: field_simps)

lemma py_max_Finite: "py_max (Finite w) (Finite h) = Finite (max w h)"
  by (simp add: py_max_def max_def)

text \<open>
  C6, as amended. For a drawing with finite width and height and a scale, all between
  \<open>2^-300\<close> and \<open>2^300\<close>, the scaling step succeeds; \<open>renderScale\<close> becomes the factor \<open>f\<close>, the float
  nearest to \<open>scale / max(width, height)\<close>; both dimensions are multiplied by this one
  factor, each product rounded to the nearest float, so the ratio is kept up to rounding;
  and the dimension that was the larger ends within a relative distance \<open>2^-51\<close> of the
  scale, not always on it.
\<close>

theorem scale_drawing_within_rounding:
  assumes d: "width d = Finite w" "height d = Finite h"
    and w: "pow2 (- 300) \<le> w" "w \<le> pow2 300"
    and h: "pow2 (- 300) \<le> h" "h \<le> pow2 300"
    and s: "pow2 (- 300) \<le> s" "s \<le> pow2 300"
  shows "\<exists>f w' h'.
      scale_drawing (Finite s) d =
        Inr (d\<lparr>width := Finite w', height := Finite h', renderScale := Finite f\<rparr>)
      \<and> \<bar>f * max w h - s\<bar> * 2 ^ 53 \<le> s
      \<and> \<bar>w' - w * f\<bar> * 2 ^ 53 \<le> w * f
      \<and> \<bar>h' - h * f\<bar> * 2 ^ 53 \<le> h * f
      \<and> \<bar>(if w < h then h' else w') - s\<bar> * 2 ^ 51 \<le> s"
proof -
  define m where "m = max w h"
  define r where "r = s / m"
  have m: "pow2 (- 300) \<le> m" "m \<le> pow2 300"
    using w h by (simp_all add: m_def max_def)
  have mpos: "0 < m" using m(1) pow2_pos [of "- 300"] by linarith
  have spos: "0 < s" using s(1) pow2_pos [of "- 300"] by linarith
  have rm: "r * m = s" using mpos by (simp add: r_def)
  have "pow2 (- 300) / pow2 300 \<le> r"
    unfolding r_def using s(1) m(2) mpos pow2_pos [of "- 300"] by (intro frac_le) simp_all
  then have r1: "pow2 (- 600) \<le> r" by (simp add: pow2_quot)
  have "r \<le> pow2 300 / pow2 (- 300)"
    unfolding r_def using s(2) m(1) spos pow2_pos [of "- 300"] by (intro frac_le) simp_all
  then have r2: "r \<le> pow2 600" by (simp add: pow2_quot)
  have "pow2 (- 1022) \<le> pow2 (- 600)" "pow2 600 \<le> pow2 1000"
    by (simp_all add: pow2_mono)
  with r1 r2 have "pow2 (- 1022) \<le> r" "r \<le> pow2 1000" by linarith+
  from rnd_positive [OF this] obtain f where f: "rnd r = Finite f"
    and fe: "\<bar>f - r\<bar> * 2 ^ 53 \<le> r" and f1: "r / 2 \<le> f" and f2: "f \<le> 2 * r"
    by blast
  have "pow2 (- 600) / 2 \<le> f" using r1 f1 by linarith
  moreover have "pow2 (- 600) / 2 = pow2 (- 601)"
    using pow2_quot [of "- 600" 1] by (simp add: pow2_def)
  ultimately have fl: "pow2 (- 601) \<le> f" by simp
  have "f \<le> 2 * pow2 600" using r2 f2 by linarith
  moreover have "2 * pow2 600 = pow2 601"
    using pow2_add [of 1 600] by (simp add: pow2_def)
  ultimately have fh: "f \<le> pow2 601" by simp
  have fpos: "0 < f" using fl pow2_pos [of "- 601"] by linarith
  have prod: "\<exists>v'. rnd (v * f) = Finite v' \<and> \<bar>v' - v * f\<bar> * 2 ^ 53 \<le> v * f"
    if v: "pow2 (- 300) \<le> v" "v \<le> pow2 300" for v
  proof -
    have "pow2 (- 300) * pow2 (- 601) \<le> v * f"
      using v(1) fl pow2_pos [of "- 300"] pow2_pos [of "- 601"]
      by (intro mult_mono) simp_all
    moreover have "pow2 (- 300) * pow2 (- 601) = pow2 (- 901)"
      using pow2_add [of "- 300" "- 601"] by simp
    moreover have "pow2 (- 1022) \<le> pow2 (- 901)" by (simp add: pow2_mono)
    ultimately have 1: "pow2 (- 1022) \<le> v * f" by linarith
    have vpos: "0 \<le> v" using v(1) pow2_pos [of "- 300"] by linarith
    have "v * f \<le> pow2 300 * pow2 601"
      using v(2) fh vpos fpos pow2_pos [of 300] by (intro mult_mono) simp_all
    moreover have "pow2 300 * pow2 601 = pow2 901"
      using pow2_add [of 300 601] by simp
    moreover have "pow2 901 \<le> pow2 1000" by (simp add: pow2_mono)
    ultimately have 2: "v * f \<le> pow2 1000" by linarith
    from rnd_positive [OF 1 2] show ?thesis by blast
  qed
  from prod [OF w] obtain w' where w': "rnd (w * f) = Finite w'"
    and we: "\<bar>w' - w * f\<bar> * 2 ^ 53 \<le> w * f" by blast
  from prod [OF h] obtain h' where h': "rnd (h * f) = Finite h'"
    and he: "\<bar>h' - h * f\<bar> * 2 ^ 53 \<le> h * f" by blast
  have res: "scale_drawing (Finite s) d =
        Inr (d\<lparr>width := Finite w', height := Finite h', renderScale := Finite f\<rparr>)"
    using mpos f
    by (simp add: scale_drawing_def d py_max_Finite fdiv_def w' h' r_def m_def)
  have "f * m - s = (f - r) * m" using rm by (simp add: algebra_simps)
  then have "\<bar>f * m - s\<bar> * 2 ^ 53 = (\<bar>f - r\<bar> * 2 ^ 53) * m"
    using mpos by (simp add: abs_mult)
  also have "\<dots> \<le> r * m" using fe mpos by (intro mult_right_mono) simp_all
  finally have b1: "\<bar>f * m - s\<bar> * 2 ^ 53 \<le> s" by (simp only: rm)
  define m' where "m' = (if w < h then h' else w')"
  have me: "\<bar>m' - m * f\<bar> * 2 ^ 53 \<le> m * f"
    using we he by (auto simp: m_def m'_def max_def)
  have "m * f \<le> m * (2 * r)" using f2 mpos by (intro mult_left_mono) simp_all
  also have "\<dots> = 2 * s" using rm by (simp add: mult.commute)
  finally have mf: "m * f \<le> 2 * s" .
  define a where "a = \<bar>m' - m * f\<bar>"
  define b where "b = \<bar>f * m - s\<bar>"
  have "m' - s = (m' - m * f) + (f * m - s)" by (simp add: mult.commute)
  then have "\<bar>m' - s\<bar> \<le> a + b"
    unfolding a_def b_def by (simp only: abs_triangle_ineq)
  then have "\<bar>m' - s\<bar> * 2 ^ 53 \<le> (a + b) * 2 ^ 53"
    by (intro mult_right_mono) simp_all
  also have "\<dots> = a * 2 ^ 53 + b * 2 ^ 53"
    by (simp add: distrib_right)
  also have "\<dots> \<le> 2 * s + s" using me mf b1 unfolding a_def b_def by linarith
  also have "\<dots> \<le> 4 * s" using spos by simp
  finally have "\<bar>m' - s\<bar> * 2 ^ 53 \<le> 4 * s" .
  moreover have "\<bar>m' - s\<bar> * 2 ^ 53 = 4 * (\<bar>m' - s\<bar> * 2 ^ 51)" by simp
  ultimately have b4: "\<bar>m' - s\<bar> * 2 ^ 51 \<le> s" by linarith
  from res b1 we he b4 show ?thesis
    unfolding m_def m'_def by blast
qed

lemma rnd_500_15: "rnd (500 / 15) = Finite (4691249611844267 / 140737488355328)"
  by code_simp

lemma rnd_15f: "rnd (15 * (4691249611844267 / 140737488355328)) = Finite (8796093022208001 / 17592186044416)"
  by code_simp

lemma rnd_10f: "rnd (10 * (4691249611844267 / 140737488355328)) = Finite (2932031007402667 / 8796093022208)"
  by code_simp

text \<open>
  C6 as stated fails: a drawing of 15 by 10 scaled to 500, the scale that \<open>release\<close> asks
  for, gets the width \<open>500.00000000000006\<close>, since \<open>500 / 15\<close> is not a float.
\<close>

theorem scale_drawing_inexact_counterexample:
  "scale_drawing (Finite 500) sample_drawing =
     Inr \<lparr>width = Finite (8796093022208001 / 17592186044416),
          height = Finite (2932031007402667 / 8796093022208),
          renderScale = Finite (4691249611844267 / 140737488355328)\<rparr>
   \<and> Finite (8796093022208001 / 17592186044416) \<noteq> Finite 500"
  using rnd_500_15 rnd_15f rnd_10f
  by (simp add: scale_drawing_def sample_drawing_def py_max_def fdiv_def)

theorem scale_drawing_within_rounding_witness:
  "width sample_drawing = Finite 15 \<and> height sample_drawing = Finite 10
   \<and> pow2 (- 300) \<le> 15 \<and> 15 \<le> pow2 300
   \<and> pow2 (- 300) \<le> 10 \<and> 10 \<le> pow2 300
   \<and> pow2 (- 300) \<le> 500 \<and> 500 \<le> pow2 300
   \<and> (\<exists>f w' h'.
      scale_drawing (Finite 500) sample_drawing =
        Inr (sample_drawing\<lparr>width := Finite w', height := Finite h', renderScale := Finite f\<rparr>)
      \<and> \<bar>f * max 15 10 - 500\<bar> * 2 ^ 53 \<le> 500
      \<and> \<bar>w' - 15 * f\<bar> * 2 ^ 53 \<le> 15 * f
      \<and> \<bar>h' - 10 * f\<bar> * 2 ^ 53 \<le> 10 * f
      \<and> \<bar>(if (15::rat) < 10 then h' else w') - 500\<bar> * 2 ^ 51 \<le> 500)"
proof -
  have d: "width sample_drawing = Finite 15" "height sample_drawing = Finite 10"
    by (simp_all add: sample_drawing_def)
  have b: "pow2 (- 300) \<le> 15" "15 \<le> pow2 300" "pow2 (- 300) \<le> 10" "10 \<le> pow2 300"
    "pow2 (- 300) \<le> 500" "500 \<le> pow2 300"
    by (simp_all add: pow2_def)
  from scale_drawing_within_rounding [OF d b] d b show ?thesis
    by (intro conjI)
qed

end
